theory Spec2Isabelle
  imports Main "HOL-Library.Sublist" "HOL-Library.Monad_Syntax"
begin

section \<open>JavaScript strings\<close>

text \<open>
  A JavaScript string is a list of UTF-16 code units. The type \<^typ>\<open>string\<close> holds the
  texts all of whose code units lie in U+0000 to U+00FF; the mail side (the names and
  roles of mailboxes, the addresses), the time-zone utilities and the contact builder are
  modelled over it. The type \<open>ustring\<close>, below, holds every text; the iCalendar codec, the
  two summary parsers and the arguments of the calendar tools are modelled over it.

  The white space of \<open>String.prototype.trim\<close> and of the regular expression class \<open>\s\<close> is
  the same set; the members below U+0100 are TAB, LF, VT, FF, CR, SPACE and NBSP. The line
  terminators below U+0100, which \<open>.\<close> does not match, are LF and CR.
\<close>

abbreviation LF :: char where
  "LF \<equiv> CHR 0x0A"

abbreviation CR :: char where
  "CR \<equiv> CHR 0x0D"

definition isWs :: "char \<Rightarrow> bool" where
  "isWs c = (c \<in> set [CHR 0x09, CHR 0x0A, CHR 0x0B, CHR 0x0C, CHR 0x0D, CHR 0x20, CHR 0xA0])"

definition isLineTerminator :: "char \<Rightarrow> bool" where
  "isLineTerminator c = (c = LF \<or> c = CR)"

definition trim :: "string \<Rightarrow> string" where
  "trim s = rev (dropWhile isWs (rev (dropWhile isWs s)))"





subsection \<open>All code units\<close>

text \<open>
  A code unit of a \<open>ustring\<close> is \<open>L c\<close>, the code unit \<open>c\<close> below U+0100, or \<open>H n\<close>, the code
  unit \<open>n\<close> from U+0100 on. \<open>js\<close> reads a \<^typ>\<open>string\<close> as a \<open>ustring\<close>. Above U+00FF the white space
  of \<open>trim\<close> and \<open>\s\<close> is U+1680, U+2000 to U+200A, U+2028, U+2029, U+202F, U+205F, U+3000 and
  U+FEFF, and the line terminators are U+2028 and U+2029.
\<close>

datatype unit16 = L char | H nat

type_synonym ustring = "unit16 list"

abbreviation js :: "string \<Rightarrow> ustring" where
  "js s \<equiv> map L s"

abbreviation uLF :: unit16 where
  "uLF \<equiv> L LF"

abbreviation uCR :: unit16 where
  "uCR \<equiv> L CR"

abbreviation uCRLF :: ustring where
  "uCRLF \<equiv> [uCR, uLF]"

fun isWsU :: "unit16 \<Rightarrow> bool" where
  "isWsU (L c) = isWs c"
| "isWsU (H n) =
     (n \<in> set [0x1680, 0x2000, 0x2001, 0x2002, 0x2003, 0x2004, 0x2005, 0x2006, 0x2007, 0x2008,
               0x2009, 0x200A, 0x2028, 0x2029, 0x202F, 0x205F, 0x3000, 0xFEFF])"

fun isLineTerminatorU :: "unit16 \<Rightarrow> bool" where
  "isLineTerminatorU (L c) = isLineTerminator c"
| "isLineTerminatorU (H n) = (n = 0x2028 \<or> n = 0x2029)"

definition trimU :: "ustring \<Rightarrow> ustring" where
  "trimU s = rev (dropWhile isWsU (rev (dropWhile isWsU s)))"

text \<open>\<open>Array.prototype.find\<close>: the first element that satisfies the predicate.\<close>

fun find_first :: "('a \<Rightarrow> bool) \<Rightarrow> 'a list \<Rightarrow> 'a option" where
  "find_first p [] = None"
| "find_first p (x # xs) = (if p x then Some x else find_first p xs)"

section \<open>Errors\<close>

text \<open>
  Every \<open>throw new Error(...)\<close> of the modelled functions is a constructor; \<open>External\<close>
  stands for a rejection that comes from the remote store or the runtime.
\<close>

datatype error =
    MailboxNotFound string
  | ProtectedRole string
  | ProtectedName string
  | CalendarNotFound
  | ReadOnly
  | LastCalendar
  | NoPropertyGiven
  | InvalidTimezone string
  | MissingOrganizer
  | InvalidIsoDatetime ustring
  | InvalidNaiveDatetime string
  | RangeError
  | CreateFailed nat string
  | NoIdentities
  | NoMatchingIdentity
  | MissingBody
  | DraftsNotFound
  | SentNotFound
  | SubmissionFailed
  | External string

section \<open>Mailbox deletion guard (index.ts)\<close>













section \<open>The CalDAV client and the calendar tools (index.ts)\<close>

text \<open>
  The protocol client is the environment of a tool handler: each field is what the
  corresponding call of the client answers, \<open>Inl\<close> with the message when the promise
  rejects. A handler returns its result together with the calls it issued, in order.
  \<open>fetchCalendars\<close> answering \<open>null\<close> is the empty list (\<open>calendars || []\<close>).
\<close>

record calendar =
  url :: string
  displayName :: string
  timezone :: "string option"

datatype json =
    JUndefined
  | JNull
  | JBool bool
  | JNum int
  | JStr string
  | JArr "json list"
  | JObj "(string \<times> json) list"

record response =
  ok :: bool
  status :: nat
  statusText :: string
  body :: "string + string"

record caldav =
  login :: "string + unit"
  fetchCalendars :: "string + calendar list"
  propfind :: "string \<Rightarrow> string + json"
  deleteObject :: "string \<Rightarrow> string + unit"
  createCalendarObject :: "calendar \<Rightarrow> ustring \<Rightarrow> string \<Rightarrow> string + response"
  davRequest :: "string \<Rightarrow> (string \<times> ustring) list \<Rightarrow> string + unit"

datatype call =
    Login
  | FetchCalendars
  | Propfind string
  | DeleteObject string
  | CreateCalendarObject string ustring string
  | DavRequest string "(string \<times> ustring) list"

definition delete_calendar :: "caldav \<Rightarrow> string \<Rightarrow> (error + string) \<times> call list" where
  "delete_calendar dav calendarId =
     (case login dav of
        Inl e \<Rightarrow> (Inl (External e), [Login])
      | Inr _ \<Rightarrow>
          (case fetchCalendars dav of
             Inl e \<Rightarrow> (Inl (External e), [Login, FetchCalendars])
           | Inr calendars \<Rightarrow>
               (case find_first (\<lambda>c. url c = calendarId) calendars of
                  None \<Rightarrow> (Inl CalendarNotFound, [Login, FetchCalendars])
                | Some cal \<Rightarrow>
                    if length calendars \<le> 1
                    then (Inl LastCalendar, [Login, FetchCalendars])
                    else
                      (case deleteObject dav calendarId of
                         Inl e \<Rightarrow>
                           (Inl (External e), [Login, FetchCalendars, DeleteObject calendarId])
                       | Inr _ \<Rightarrow>
                           (Inr ''OK'', [Login, FetchCalendars, DeleteObject calendarId])))))"

fun isDeletion :: "call \<Rightarrow> bool" where
  "isDeletion (DeleteObject u) = True"
| "isDeletion c = False"

text \<open>
  C6. After a successful login and listing in which the target is found: with at most
  one calendar in the list the tool fails with the last-calendar error and issues no
  deletion call; with two or more it issues exactly one deletion call, against the
  target URL.
\<close>

theorem delete_calendar_guard:
  assumes "login dav = Inr ()"
    and "fetchCalendars dav = Inr calendars"
    and "find_first (\<lambda>c. url c = calendarId) calendars = Some cal"
  shows "(if length calendars \<le> 1
          then fst (delete_calendar dav calendarId) = Inl LastCalendar
               \<and> filter isDeletion (snd (delete_calendar dav calendarId)) = []
          else filter isDeletion (snd (delete_calendar dav calendarId))
                 = [DeleteObject calendarId])"
  using assms by (simp add: delete_calendar_def split: sum.splits)

definition mockCaldav :: "calendar list \<Rightarrow> caldav" where
  "mockCaldav cals =
     \<lparr>login = Inr (), fetchCalendars = Inr cals, propfind = (\<lambda>u. Inr (JArr [])),
      deleteObject = (\<lambda>u. Inr ()),
      createCalendarObject = (\<lambda>c i f. Inr \<lparr>ok = True, status = 201, statusText = ''Created'',
                                               body = Inr []\<rparr>),
      davRequest = (\<lambda>u p. Inr ())\<rparr>"

theorem delete_calendar_guard_witness:
  "fst (delete_calendar
          (mockCaldav [\<lparr>url = ''/cal/only/'', displayName = ''Only'', timezone = None\<rparr>])
          ''/cal/only/'') = Inl LastCalendar
   \<and> snd (delete_calendar
          (mockCaldav [\<lparr>url = ''/cal/only/'', displayName = ''Only'', timezone = None\<rparr>])
          ''/cal/only/'') = [Login, FetchCalendars]
   \<and> filter isDeletion (snd (delete_calendar
          (mockCaldav [\<lparr>url = ''/cal/default/'', displayName = ''Default'', timezone = None\<rparr>,
                       \<lparr>url = ''/cal/work/'', displayName = ''Work'', timezone = None\<rparr>])
          ''/cal/work/'')) = [DeleteObject ''/cal/work/'']"
proof -
  let ?only = "\<lparr>url = ''/cal/only/'', displayName = ''Only'', timezone = None\<rparr>"
  let ?def = "\<lparr>url = ''/cal/default/'', displayName = ''Default'', timezone = None\<rparr>"
  let ?work = "\<lparr>url = ''/cal/work/'', displayName = ''Work'', timezone = None\<rparr>"
  have a: "login (mockCaldav cs) = Inr ()" "fetchCalendars (mockCaldav cs) = Inr cs" for cs
    by (simp_all add: mockCaldav_def)
  have h1: "find_first (\<lambda>c. url c = ''/cal/only/'') [?only] = Some ?only" by simp
  have h2: "find_first (\<lambda>c. url c = ''/cal/work/'') [?def, ?work] = Some ?work" by simp
  have t1: "snd (delete_calendar (mockCaldav [?only]) ''/cal/only/'') = [Login, FetchCalendars]"
    by (simp add: delete_calendar_def mockCaldav_def)
  show ?thesis
    using delete_calendar_guard [OF a(1) a(2) h1] delete_calendar_guard [OF a(1) a(2) h2] t1
    by simp
qed

section \<open>Dates of the runtime (ECMAScript \<open>Date\<close>)\<close>

text \<open>
  A time value is a number of milliseconds since 1970-01-01T00:00:00Z, an \<^typ>\<open>int\<close>.
  \<open>daysFromCivil\<close> and \<open>civilFromDays\<close> convert between a day number and a date of the
  proleptic Gregorian calendar, as \<open>MakeDay\<close>, \<open>YearFromTime\<close>, \<open>MonthFromTime\<close> and
  \<open>DateFromTime\<close> of the language standard do.
\<close>

definition daysFromCivil :: "int \<Rightarrow> int \<Rightarrow> int \<Rightarrow> int" where
  "daysFromCivil y m d =
     (let y' = (if m \<le> 2 then y - 1 else y);
          era = y' div 400;
          yoe = y' - era * 400;
          doy = (153 * (if m > 2 then m - 3 else m + 9) + 2) div 5 + d - 1;
          doe = yoe * 365 + yoe div 4 - yoe div 100 + doy
      in era * 146097 + doe - 719468)"

definition civilFromDays :: "int \<Rightarrow> int \<times> int \<times> int" where
  "civilFromDays z =
     (let z' = z + 719468;
          era = z' div 146097;
          doe = z' - era * 146097;
          yoe = (doe - doe div 1460 + doe div 36524 - doe div 146096) div 365;
          doy = doe - (365 * yoe + yoe div 4 - yoe div 100);
          mp = (5 * doy + 2) div 153;
          d = doy - (153 * mp + 2) div 5 + 1;
          m = (if mp < 10 then mp + 3 else mp - 9)
      in (yoe + era * 400 + (if m \<le> 2 then 1 else 0), m, d))"

text \<open>
  \<open>Date.UTC(year, month, date, hours, minutes, seconds)\<close>: a year from 0 to 99 means
  1900 + year; the month is counted from 0 and may lie outside 0..11, the other fields
  carry over linearly.
\<close>

definition MakeDay :: "int \<Rightarrow> int \<Rightarrow> int \<Rightarrow> int" where
  "MakeDay year month date =
     daysFromCivil (year + month div 12) (month mod 12 + 1) 1 + date - 1"

definition DateUTC :: "int \<Rightarrow> int \<Rightarrow> int \<Rightarrow> int \<Rightarrow> int \<Rightarrow> int \<Rightarrow> int" where
  "DateUTC y mon d h mi s =
     (let yr = (if 0 \<le> y \<and> y \<le> 99 then 1900 + y else y)
      in MakeDay yr mon d * 86400000 + h * 3600000 + mi * 60000 + s * 1000)"

definition digitChar :: "nat \<Rightarrow> char" where
  "digitChar n = ''0123456789'' ! (n mod 10)"

function showNat :: "nat \<Rightarrow> string" where
  "showNat n = (if n < 10 then [digitChar n] else showNat (n div 10) @ [digitChar n])"
  by pat_completeness auto
termination
  by (relation "measure id") auto

declare showNat.simps [simp del]

lemma showNat_digit: "n < 10 \<Longrightarrow> showNat n = [digitChar n]"
  by (simp add: showNat.simps)

lemma showNat_more: "10 \<le> n \<Longrightarrow> showNat n = showNat (n div 10) @ [digitChar n]"
  by (subst showNat.simps) simp

definition showInt :: "int \<Rightarrow> string" where
  "showInt i = (if i < 0 then CHR ''-'' # showNat (nat (- i)) else showNat (nat i))"

definition padStart :: "nat \<Rightarrow> char \<Rightarrow> string \<Rightarrow> string" where
  "padStart n c s = replicate (n - length s) c @ s"

definition pad2 :: "int \<Rightarrow> string" where
  "pad2 n = padStart 2 (CHR ''0'') (showInt n)"

text \<open>\<open>Date.prototype.toISOString\<close> of a time value in the range of \<open>Date\<close>.\<close>

definition toISOString :: "int \<Rightarrow> string" where
  "toISOString t =
     (let (y, m, d) = civilFromDays (t div 86400000);
          r = t mod 86400000;
          ys = (if 0 \<le> y \<and> y \<le> 9999 then padStart 4 (CHR ''0'') (showInt y)
                else (if y < 0 then CHR ''-'' else CHR ''+'') # padStart 6 (CHR ''0'') (showInt (abs y)))
      in ys @ ''-'' @ pad2 m @ ''-'' @ pad2 d @ ''T'' @ pad2 (r div 3600000) @ '':''
         @ pad2 (r mod 3600000 div 60000) @ '':'' @ pad2 (r mod 60000 div 1000) @ ''.''
         @ padStart 3 (CHR ''0'') (showInt (r mod 1000)) @ ''Z'')"


section \<open>The runtime\<close>

text \<open>
  What the JavaScript runtime and its time-zone data answer is a parameter of the model.
  \<open>zoneOffset rt z\<close> is \<open>None\<close> when the runtime does not know the zone \<open>z\<close> (constructing
  a formatter for it raises a \<open>RangeError\<close>), and otherwise the zone's offset from UTC, in
  minutes, at an instant. \<open>hostOffset rt w\<close> is the offset, in minutes, that the host's own
  zone applies when \<open>new Date(text)\<close> reads the wall-clock time \<open>w\<close> (given as the time value
  it would be in UTC) back as local time. \<open>dateParse\<close> is \<open>new Date(iso).getTime()\<close>, \<open>None\<close>
  for \<open>NaN\<close>. \<open>urlResolve rel base\<close> is \<open>new URL(rel, base).href\<close>, \<open>None\<close> when the constructor
  throws.
\<close>

record runtime =
  zoneOffset :: "string \<Rightarrow> (int \<Rightarrow> int) option"
  hostOffset :: "int \<Rightarrow> int"
  machineTimezone :: string
  dateParse :: "ustring \<Rightarrow> int option"
  nowMs :: int
  randomUUID :: string
  urlResolve :: "string \<Rightarrow> string \<Rightarrow> string option"

section \<open>Timezone utilities (dav/timezone.ts)\<close>

definition getMachineTimezone :: "runtime \<Rightarrow> string" where
  "getMachineTimezone rt = machineTimezone rt"

text \<open>The first match of \<open>/TZID:([^\r\n]+)/\<close>: the captured group.\<close>

fun matchTzid :: "string \<Rightarrow> string option" where
  "matchTzid [] = None"
| "matchTzid (c # cs) =
     (if prefix ''TZID:'' (c # cs)
         \<and> takeWhile (\<lambda>x. \<not> isLineTerminator x) (drop 5 (c # cs)) \<noteq> []
      then Some (takeWhile (\<lambda>x. \<not> isLineTerminator x) (drop 5 (c # cs)))
      else matchTzid cs)"

definition extractCalendarTimezone :: "string option \<Rightarrow> string option" where
  "extractCalendarTimezone vtimezone =
     (case vtimezone of
        None \<Rightarrow> None
      | Some v \<Rightarrow>
          if v = [] then None
          else (case matchTzid v of
                  None \<Rightarrow> None
                | Some g \<Rightarrow> if trim g = [] then None else Some (trim g)))"

definition resolveTimezone :: "runtime \<Rightarrow> string option \<Rightarrow> string" where
  "resolveTimezone rt calendarTimezone =
     (case calendarTimezone of
        None \<Rightarrow> getMachineTimezone rt
      | Some tz \<Rightarrow> if tz = [] then getMachineTimezone rt else tz)"

definition isValidTimezone :: "runtime \<Rightarrow> string \<Rightarrow> bool" where
  "isValidTimezone rt tz = (zoneOffset rt tz \<noteq> None)"

definition isDigit :: "char \<Rightarrow> bool" where
  "isDigit c = (c \<in> set ''0123456789'')"

text \<open>\<open>/Z$|[+-]\d{2}:\d{2}$/\<close>\<close>

definition hasTimezoneOffset :: "string \<Rightarrow> bool" where
  "hasTimezoneOffset datetime =
     ((datetime \<noteq> [] \<and> last datetime = CHR ''Z'')
      \<or> (case rev datetime of
            d4 # d3 # c # d2 # d1 # sg # _ \<Rightarrow>
              isDigit d4 \<and> isDigit d3 \<and> c = CHR '':'' \<and> isDigit d2 \<and> isDigit d1
              \<and> (sg = CHR ''+'' \<or> sg = CHR ''-'')
          | _ \<Rightarrow> False))"

text \<open>
  The pieces of \<open>/^(\d{4})-(\d{2})-(\d{2})T(\d{2}):(\d{2}):(\d{2})$/\<close>: \<open>digits n s\<close> reads
  exactly \<open>n\<close> decimal digits off the front of \<open>s\<close> and gives their value (\<open>Number\<close> of the
  group) and the rest; \<open>lit c s\<close> reads the character \<open>c\<close>.
\<close>

definition digitVal :: "char \<Rightarrow> int" where
  "digitVal c = int (length (takeWhile (\<lambda>d. d \<noteq> c) ''0123456789''))"

definition digits :: "nat \<Rightarrow> string \<Rightarrow> (int \<times> string) option" where
  "digits n s =
     (if n \<le> length s \<and> list_all isDigit (take n s)
      then Some (foldl (\<lambda>a c. 10 * a + digitVal c) 0 (take n s), drop n s)
      else None)"

definition lit :: "char \<Rightarrow> string \<Rightarrow> string option" where
  "lit c s = (case s of [] \<Rightarrow> None | x # r \<Rightarrow> if x = c then Some r else None)"

definition matchNaive :: "string \<Rightarrow> (int \<times> int \<times> int \<times> int \<times> int \<times> int) option" where
  "matchNaive naive =
     do {
       (y, r1) \<leftarrow> digits 4 naive;
       r2 \<leftarrow> lit (CHR ''-'') r1;
       (mo, r3) \<leftarrow> digits 2 r2;
       r4 \<leftarrow> lit (CHR ''-'') r3;
       (d, r5) \<leftarrow> digits 2 r4;
       r6 \<leftarrow> lit (CHR ''T'') r5;
       (h, r7) \<leftarrow> digits 2 r6;
       r8 \<leftarrow> lit (CHR '':'') r7;
       (mi, r9) \<leftarrow> digits 2 r8;
       r10 \<leftarrow> lit (CHR '':'') r9;
       (s, r11) \<leftarrow> digits 2 r10;
       if r11 = [] then Some (y, mo, d, h, mi, s) else None
     }"

text \<open>
  \<open>naiveToUtcIso\<close>. \<open>asUtc.toLocaleString('en-US', {timeZone: z})\<close> renders the wall-clock
  time of the instant in the zone \<open>z\<close>; \<open>new Date\<close> of that text reads it back in the host's
  zone. The wall-clock time of \<open>asUtc\<close> in UTC is \<open>asUtc\<close> itself.
\<close>

definition readBack :: "runtime \<Rightarrow> int \<Rightarrow> int" where
  "readBack rt w = w - 60000 * hostOffset rt w"

definition naiveToUtcIso :: "runtime \<Rightarrow> string \<Rightarrow> string \<Rightarrow> error + string" where
  "naiveToUtcIso rt naive tzId =
     (case matchNaive naive of
        None \<Rightarrow> Inl (InvalidNaiveDatetime naive)
      | Some (y, mo, d, h, mi, s) \<Rightarrow>
          (let asUtc = DateUTC y (mo - 1) d h mi s;
               utcRepr = readBack rt asUtc
           in case zoneOffset rt tzId of
                None \<Rightarrow> Inl RangeError
              | Some off \<Rightarrow>
                  (let tzRepr = readBack rt (asUtc + 60000 * off asUtc);
                       offsetMs = tzRepr - utcRepr
                   in Inr (toISOString (asUtc - offsetMs)))))"

definition ensureOffsetAware :: "runtime \<Rightarrow> string \<Rightarrow> string \<Rightarrow> error + string" where
  "ensureOffsetAware rt datetime tzId =
     (if hasTimezoneOffset datetime then Inr datetime else naiveToUtcIso rt datetime tzId)"

abbreviation CRLF :: string where
  "CRLF \<equiv> [CR, LF]"

fun joinWith :: "'a list \<Rightarrow> 'a list list \<Rightarrow> 'a list" where
  "joinWith sep [] = []"
| "joinWith sep [x] = x"
| "joinWith sep (x # y # r) = x @ sep @ joinWith sep (y # r)"

definition buildCalendarTimezoneProperty :: "runtime \<Rightarrow> string \<Rightarrow> error + string" where
  "buildCalendarTimezoneProperty rt tzId =
     (let jan = DateUTC 2020 0 1 12 0 0;
          utcRepr = readBack rt jan
      in case zoneOffset rt tzId of
           None \<Rightarrow> Inl RangeError
         | Some off \<Rightarrow>
             (let tzRepr = readBack rt (jan + 60000 * off jan);
                  offsetMin = (tzRepr - utcRepr) div 60000;
                  sign = (if offsetMin \<ge> 0 then ''+'' else ''-'');
                  absMin = abs offsetMin;
                  hh = pad2 (absMin div 60);
                  mm = pad2 (absMin mod 60);
                  offsetStr = sign @ hh @ mm
              in Inr (joinWith CRLF
                   [''BEGIN:VCALENDAR'',
                    ''PRODID:-//fastmail-mcp//EN'',
                    ''VERSION:2.0'',
                    ''BEGIN:VTIMEZONE'',
                    ''TZID:'' @ tzId,
                    ''BEGIN:STANDARD'',
                    ''DTSTART:19700101T000000'',
                    ''TZOFFSETFROM:'' @ offsetStr,
                    ''TZOFFSETTO:'' @ offsetStr,
                    ''END:STANDARD'',
                    ''END:VTIMEZONE'',
                    ''END:VCALENDAR''])))"

text \<open>
  A host in UTC that knows the zones UTC and America/New_York with the rules of 2026:
  daylight time (UTC-4) from 2026-03-08T07:00:00Z to 2026-11-01T06:00:00Z, standard
  time (UTC-5) otherwise.
\<close>

definition nyOffset2026 :: "int \<Rightarrow> int" where
  "nyOffset2026 t = (if 1772953200000 \<le> t \<and> t < 1793512800000 then - 240 else - 300)"

definition zones2026 :: "string \<Rightarrow> (int \<Rightarrow> int) option" where
  "zones2026 z =
     (if z = ''America/New_York'' then Some nyOffset2026
      else if z = ''UTC'' then Some (\<lambda>t. 0)
      else None)"

definition utcHost :: runtime where
  "utcHost =
     \<lparr>zoneOffset = zones2026, hostOffset = (\<lambda>w. 0), machineTimezone = ''UTC'',
      dateParse = (\<lambda>s. None), nowMs = 1772940600000,
      randomUUID = ''123e4567-e89b-42d3-a456-426614174000'',
      urlResolve = (\<lambda>rel base. if base = ''https://dav.example/cal/work/''
                                    then Some (base @ rel) else None)\<rparr>"

text \<open>
  A host in America/New_York: it reads a wall-clock time before 02:00 on 2026-03-08, or
  from 02:00 on 2026-11-01, as standard time, and a wall-clock time in between as
  daylight time.
\<close>

definition nyHostOffset2026 :: "int \<Rightarrow> int" where
  "nyHostOffset2026 w = (if 1772938800000 \<le> w \<and> w < 1793498400000 then - 240 else - 300)"

definition nyHost :: runtime where
  "nyHost = utcHost\<lparr>hostOffset := nyHostOffset2026, machineTimezone := ''America/New_York''\<rparr>"


text \<open>
  The names of the time-zone database: non-empty, made of ASCII letters, digits and the
  characters \<open>/ _ - + . :\<close> (the last for the offset zones such as \<open>+05:30\<close>).
\<close>

definition ianaChar :: "char \<Rightarrow> bool" where
  "ianaChar c =
     (c \<in> set ''ABCDEFGHIJKLMNOPQRSTUVWXYZabcdefghijklmnopqrstuvwxyz0123456789/_-+.:'')"

definition ianaName :: "string \<Rightarrow> bool" where
  "ianaName tz = (tz \<noteq> [] \<and> list_all ianaChar tz)"

lemma trim_id:
  assumes "s \<noteq> []" and "\<not> isWs (hd s)" and "\<not> isWs (last s)"
  shows "trim s = s"
proof -
  from assms obtain x xs where s: "s = x # xs" by (cases s) auto
  with assms have a: "dropWhile isWs s = s" by simp
  from assms have "rev s \<noteq> []" and "hd (rev s) = last s" by (simp_all add: hd_rev)
  then obtain y ys where r: "rev s = y # ys" and y: "y = last s" by (cases "rev s") auto
  from y assms(3) have "dropWhile isWs (y # ys) = y # ys" by simp
  then have "dropWhile isWs (rev s) = rev s" by (simp only: r)
  with a show ?thesis by (simp add: trim_def)
qed

lemma ianaChar_plain: "ianaChar c \<Longrightarrow> \<not> isWs c \<and> \<not> isLineTerminator c"
  by (auto simp: ianaChar_def isWs_def isLineTerminator_def)

lemma takeWhile_line:
  assumes "\<forall>c \<in> set s. \<not> isLineTerminator c"
  shows "takeWhile (\<lambda>x. \<not> isLineTerminator x) (s @ CR # r) = s"
  using assms by (simp add: takeWhile_append2 isLineTerminator_def)

lemma extract_Some:
  assumes "v \<noteq> []" and "matchTzid v = Some g" and "g \<noteq> []" and "trim g = g"
  shows "extractCalendarTimezone (Some v) = Some g"
  using assms by (simp add: extractCalendarTimezone_def)

lemma matchTzid_blob:
  assumes "tz \<noteq> []" and "\<forall>c \<in> set tz. \<not> isLineTerminator c"
  shows "matchTzid (joinWith CRLF
           [''BEGIN:VCALENDAR'', ''PRODID:-//fastmail-mcp//EN'', ''VERSION:2.0'',
            ''BEGIN:VTIMEZONE'', ''TZID:'' @ tz, ''BEGIN:STANDARD'',
            ''DTSTART:19700101T000000'', ''TZOFFSETFROM:'' @ x, ''TZOFFSETTO:'' @ x,
            ''END:STANDARD'', ''END:VTIMEZONE'', ''END:VCALENDAR'']) = Some tz"
  using assms takeWhile_line [of tz] by simp

lemma build_blob:
  assumes "zoneOffset rt tz = Some off"
  shows "\<exists>x. buildCalendarTimezoneProperty rt tz = Inr (joinWith CRLF
           [''BEGIN:VCALENDAR'', ''PRODID:-//fastmail-mcp//EN'', ''VERSION:2.0'',
            ''BEGIN:VTIMEZONE'', ''TZID:'' @ tz, ''BEGIN:STANDARD'',
            ''DTSTART:19700101T000000'', ''TZOFFSETFROM:'' @ x, ''TZOFFSETTO:'' @ x,
            ''END:STANDARD'', ''END:VTIMEZONE'', ''END:VCALENDAR''])"
  by (simp only: buildCalendarTimezoneProperty_def Let_def assms option.case) (rule exI, rule refl)

lemma extract_of_build:
  assumes "zoneOffset rt tz = Some off"
    and "tz \<noteq> []" and "\<forall>c \<in> set tz. \<not> isLineTerminator c"
    and "\<not> isWs (hd tz)" and "\<not> isWs (last tz)"
  shows "\<exists>blob. buildCalendarTimezoneProperty rt tz = Inr blob
               \<and> extractCalendarTimezone (Some blob) = Some tz"
proof -
  from build_blob [OF assms(1)] obtain x where
    b: "buildCalendarTimezoneProperty rt tz = Inr (joinWith CRLF
           [''BEGIN:VCALENDAR'', ''PRODID:-//fastmail-mcp//EN'', ''VERSION:2.0'',
            ''BEGIN:VTIMEZONE'', ''TZID:'' @ tz, ''BEGIN:STANDARD'',
            ''DTSTART:19700101T000000'', ''TZOFFSETFROM:'' @ x, ''TZOFFSETTO:'' @ x,
            ''END:STANDARD'', ''END:VTIMEZONE'', ''END:VCALENDAR''])" (is "_ = Inr ?blob")
    by blast
  have ne: "?blob \<noteq> []" by simp
  have "extractCalendarTimezone (Some ?blob) = Some tz"
    by (rule extract_Some [OF ne matchTzid_blob [OF assms(2,3)] assms(2)
          trim_id [OF assms(2,4,5)]])
  with b show ?thesis by blast
qed

text \<open>
  C7. For every identifier that the runtime accepts as a time zone and that has the
  form of a time-zone name, the synthesized VCALENDAR/VTIMEZONE text is produced and
  \<open>extractCalendarTimezone\<close> reads the identifier back from it.
\<close>

theorem timezone_roundtrip:
  assumes "isValidTimezone rt tz" and "ianaName tz"
  shows "\<exists>blob. buildCalendarTimezoneProperty rt tz = Inr blob
               \<and> extractCalendarTimezone (Some blob) = Some tz"
proof -
  from assms(1) obtain off where z: "zoneOffset rt tz = Some off"
    by (auto simp: isValidTimezone_def)
  from assms(2) have ne: "tz \<noteq> []" and all: "\<forall>c \<in> set tz. ianaChar c"
    by (simp_all add: ianaName_def list_all_iff)
  from ne all have "ianaChar (hd tz)" and "ianaChar (last tz)" by simp_all
  then have "\<not> isWs (hd tz)" and "\<not> isWs (last tz)"
    using ianaChar_plain by blast+
  moreover from all have "\<forall>c \<in> set tz. \<not> isLineTerminator c"
    using ianaChar_plain by blast
  ultimately show ?thesis using extract_of_build [OF z ne] by blast
qed

theorem timezone_roundtrip_witness:
  "\<exists>blob. buildCalendarTimezoneProperty utcHost ''America/New_York'' = Inr blob
          \<and> extractCalendarTimezone (Some blob) = Some ''America/New_York''"
proof -
  have v: "isValidTimezone utcHost ''America/New_York''"
    by (simp add: isValidTimezone_def utcHost_def zones2026_def)
  have n: "ianaName ''America/New_York''"
    by (simp add: ianaName_def ianaChar_def)
  show ?thesis using timezone_roundtrip [OF v n] by simp
qed

lemma matchNaive_gap: "matchNaive ''2026-03-08T03:30:00'' = Some (2026, 3, 8, 3, 30, 0)"
  by (simp add: matchNaive_def digits_def lit_def isDigit_def digitVal_def)

lemma DateUTC_gap: "DateUTC 2026 2 8 3 30 0 = 1772940600000"
  by (simp add: DateUTC_def MakeDay_def daysFromCivil_def)

lemma toISOString_0830: "toISOString 1772958600000 = ''2026-03-08T08:30:00.000Z''"
  by code_simp

lemma toISOString_0730: "toISOString 1772955000000 = ''2026-03-08T07:30:00.000Z''"
  by code_simp

text \<open>
  C1. On a host whose own zone is UTC the conversion of 03:30 on 2026-03-08 in
  America/New_York takes the offset that holds at 03:30Z, which is still the standard
  offset of before the jump, and returns 08:30Z where the test of the repository and the
  claim expect 07:30Z.
\<close>

theorem naiveToUtcIso_spring_forward_utc_host:
  "naiveToUtcIso utcHost ''2026-03-08T03:30:00'' ''America/New_York''
     = Inr ''2026-03-08T08:30:00.000Z''"
  by (simp add: naiveToUtcIso_def matchNaive_gap DateUTC_gap toISOString_0830 utcHost_def
        zones2026_def nyOffset2026_def readBack_def Let_def)

text \<open>
  The same call on a host in America/New_York returns 07:30Z: there the two wall-clock
  times are read back on different sides of the host's own jump, which shortens the
  difference by the hour that the offset taken at 03:30Z is off.
\<close>

lemma naiveToUtcIso_spring_forward_ny_host:
  "naiveToUtcIso nyHost ''2026-03-08T03:30:00'' ''America/New_York''
     = Inr ''2026-03-08T07:30:00.000Z''"
  by (simp add: naiveToUtcIso_def matchNaive_gap DateUTC_gap toISOString_0730 nyHost_def
        utcHost_def zones2026_def nyOffset2026_def nyHostOffset2026_def readBack_def Let_def)

section \<open>iCalendar codec (dav/ical.ts)\<close>

record attendee =
  att_email :: ustring
  att_name :: "ustring option"

record CreateEventInput =
  title :: ustring
  start :: ustring
  end' :: ustring
  description :: "ustring option"
  location :: "ustring option"
  organizerEmail :: ustring
  organizerName :: "ustring option"
  attendees :: "attendee list option"

definition toIcsDateTime :: "runtime \<Rightarrow> ustring \<Rightarrow> error + string" where
  "toIcsDateTime rt isoStr =
     (case dateParse rt isoStr of
        None \<Rightarrow> Inl (InvalidIsoDatetime isoStr)
      | Some t \<Rightarrow>
          (let (y, m, d) = civilFromDays (t div 86400000);
               r = t mod 86400000
           in Inr (showInt y @ pad2 m @ pad2 d @ ''T'' @ pad2 (r div 3600000)
                   @ pad2 (r mod 3600000 div 60000) @ pad2 (r mod 60000 div 1000) @ ''Z'')))"

function foldLoop :: "ustring \<Rightarrow> ustring list \<Rightarrow> ustring list" where
  "foldLoop rest parts =
     (if length rest > 72
      then foldLoop (L (CHR '' '') # drop 72 rest) (parts @ [take 72 rest])
      else parts @ [rest])"
  by pat_completeness auto
termination
  by (relation "measure (\<lambda>(rest, parts). length rest)") auto

declare foldLoop.simps [simp del]

definition foldLine :: "ustring \<Rightarrow> ustring" where
  "foldLine line = (if length line \<le> 72 then line else joinWith uCRLF (foldLoop line []))"

text \<open>\<open>v.replace(/c/g, r)\<close> for a single character \<open>c\<close>.\<close>

definition replaceAll :: "'a \<Rightarrow> 'a list \<Rightarrow> 'a list \<Rightarrow> 'a list" where
  "replaceAll c r v = concat (map (\<lambda>x. if x = c then r else [x]) v)"

abbreviation BSL :: char where
  "BSL \<equiv> CHR 0x5C"

abbreviation uBSL :: unit16 where
  "uBSL \<equiv> L BSL"

definition escText :: "ustring \<Rightarrow> ustring" where
  "escText v =
     replaceAll (L (CHR '','')) [uBSL, L (CHR '','')]
       (replaceAll (L (CHR '';'')) [uBSL, L (CHR '';'')]
         (replaceAll uCR []
           (replaceAll uLF [uBSL, L (CHR ''n'')]
             (replaceAll uBSL [uBSL, uBSL] v))))"

record IcsEvent =
  ev_uid :: string
  ev_ics :: ustring
  ev_filename :: string

definition truthy :: "'a list option \<Rightarrow> bool" where
  "truthy v = (case v of None \<Rightarrow> False | Some s \<Rightarrow> s \<noteq> [])"

definition cnParam :: "ustring option \<Rightarrow> ustring" where
  "cnParam n =
     (case n of None \<Rightarrow> [] | Some s \<Rightarrow> if s = [] then [] else js '';CN='' @ escText s)"

definition buildIcsEvent :: "runtime \<Rightarrow> CreateEventInput \<Rightarrow> error + IcsEvent" where
  "buildIcsEvent rt input =
     (let uid = randomUUID rt
      in case toIcsDateTime rt (js (toISOString (nowMs rt))) of
           Inl e \<Rightarrow> Inl e
         | Inr dtstamp \<Rightarrow>
         (case toIcsDateTime rt (start input) of
            Inl e \<Rightarrow> Inl e
          | Inr dtstart \<Rightarrow>
          (case toIcsDateTime rt (end' input) of
             Inl e \<Rightarrow> Inl e
           | Inr dtend \<Rightarrow>
               (let lines =
                      [js ''BEGIN:VCALENDAR'',
                       js ''VERSION:2.0'',
                       js ''PRODID:-//fastmail-mcp//EN'',
                       js ''CALSCALE:GREGORIAN'',
                       js ''BEGIN:VEVENT'',
                       js ''UID:'' @ js uid,
                       js ''DTSTAMP:'' @ js dtstamp,
                       js ''DTSTART:'' @ js dtstart,
                       js ''DTEND:'' @ js dtend,
                       foldLine (js ''ORGANIZER'' @ cnParam (organizerName input)
                                 @ js '':mailto:'' @ organizerEmail input),
                       foldLine (js ''SUMMARY:'' @ escText (title input))]
                      @ (if truthy (description input)
                         then [foldLine (js ''DESCRIPTION:'' @ escText (the (description input)))]
                         else [])
                      @ (if truthy (location input)
                         then [foldLine (js ''LOCATION:'' @ escText (the (location input)))]
                         else [])
                      @ (case attendees input of
                           None \<Rightarrow> []
                         | Some as \<Rightarrow>
                             map (\<lambda>a. foldLine (js ''ATTENDEE'' @ cnParam (att_name a)
                                                 @ js '':mailto:'' @ att_email a)) as)
                      @ [js ''END:VEVENT'', js ''END:VCALENDAR''];
                    ics = joinWith uCRLF lines @ uCRLF;
                    filename = uid @ ''.ics''
                in Inr \<lparr>ev_uid = uid, ev_ics = ics, ev_filename = filename\<rparr>))))"

text \<open>\<open>ics.replace(/\r?\n[ \t]/g, '')\<close>\<close>

definition isFoldWs :: "unit16 \<Rightarrow> bool" where
  "isFoldWs c = (c = L (CHR '' '') \<or> c = L (CHR 0x09))"

function unfoldLines :: "ustring \<Rightarrow> ustring" where
  "unfoldLines [] = []"
| "unfoldLines (c # cs) =
     (if c = uCR \<and> (case cs of l # w # r \<Rightarrow> l = uLF \<and> isFoldWs w | _ \<Rightarrow> False)
      then unfoldLines (drop 2 cs)
      else if c = uLF \<and> (case cs of w # r \<Rightarrow> isFoldWs w | _ \<Rightarrow> False)
      then unfoldLines (drop 1 cs)
      else c # unfoldLines cs)"
  by pat_completeness auto
termination
  by (relation "measure length") auto

declare unfoldLines.simps(2) [simp del]

text \<open>
  The first match of \<open>\nKEY[^:]*:(.*)\<close>: the captured group, and what follows the match.
  \<open>[^:]*\<close> runs to the first colon after the key, across line breaks; \<open>.*\<close> runs to the next
  line terminator (LF, CR, U+2028 or U+2029).
\<close>

fun matchField :: "ustring \<Rightarrow> ustring \<Rightarrow> (ustring \<times> ustring) option" where
  "matchField key [] = None"
| "matchField key (c # cs) =
     (if c = uLF \<and> prefix key cs \<and> L (CHR '':'') \<in> set (drop (length key) cs)
      then (let v = tl (dropWhile (\<lambda>x. x \<noteq> L (CHR '':'')) (drop (length key) cs))
            in Some (takeWhile (\<lambda>x. \<not> isLineTerminatorU x) v,
                     dropWhile (\<lambda>x. \<not> isLineTerminatorU x) v))
      else matchField key cs)"

definition getOne :: "ustring \<Rightarrow> ustring \<Rightarrow> ustring option" where
  "getOne unfolded key = map_option (\<lambda>m. trimU (fst m)) (matchField key unfolded)"

record IcsSummary =
  sum_uid :: "ustring option"
  sum_title :: "ustring option"
  sum_start :: "ustring option"
  sum_end :: "ustring option"
  sum_location :: "ustring option"

definition parseIcsSummary :: "ustring \<Rightarrow> IcsSummary" where
  "parseIcsSummary ics =
     (let unfolded = unfoldLines ics
      in \<lparr>sum_uid = getOne unfolded (js ''UID''),
          sum_title = getOne unfolded (js ''SUMMARY''),
          sum_start = getOne unfolded (js ''DTSTART''),
          sum_end = getOne unfolded (js ''DTEND''),
          sum_location = getOne unfolded (js ''LOCATION'')\<rparr>)"


subsection \<open>Folding and unfolding\<close>

lemma foldLoop_acc: "foldLoop rest parts = parts @ foldLoop rest []"
proof (induction "length rest" arbitrary: rest parts rule: less_induct)
  case less
  show ?case
  proof (cases "length rest > 72")
    case True
    let ?r = "L (CHR '' '') # drop 72 rest"
    have lt: "length ?r < length rest" using True by simp
    have "foldLoop rest parts = foldLoop ?r (parts @ [take 72 rest])"
      using True by (subst foldLoop.simps) simp
    also have "\<dots> = (parts @ [take 72 rest]) @ foldLoop ?r []"
      by (rule less [OF lt])
    finally have a: "foldLoop rest parts = parts @ [take 72 rest] @ foldLoop ?r []"
      by simp
    have "foldLoop rest [] = foldLoop ?r [take 72 rest]"
      using True by (subst foldLoop.simps) simp
    also have "\<dots> = [take 72 rest] @ foldLoop ?r []"
      by (rule less [OF lt])
    finally show ?thesis using a by simp
  next
    case False
    have "foldLoop rest parts = parts @ [rest]"
      using False by (subst foldLoop.simps) simp
    moreover have "foldLoop rest [] = [rest]"
      using False by (subst foldLoop.simps) simp
    ultimately show ?thesis by simp
  qed
qed

lemma foldLoop_short: "length rest \<le> 72 \<Longrightarrow> foldLoop rest [] = [rest]"
  by (subst foldLoop.simps) simp

lemma foldLoop_long:
  "length rest > 72 \<Longrightarrow>
   foldLoop rest [] = take 72 rest # foldLoop (L (CHR '' '') # drop 72 rest) []"
  by (subst foldLoop.simps, subst foldLoop_acc) simp

lemma foldLoop_nonempty: "foldLoop rest [] \<noteq> []"
  by (cases "length rest > 72") (simp_all add: foldLoop_long foldLoop_short)

lemma joinWith_Cons: "ys \<noteq> [] \<Longrightarrow> joinWith sep (x # ys) = x @ sep @ joinWith sep ys"
  by (cases ys) simp_all

lemma foldLine_joined: "foldLine l = joinWith uCRLF (foldLoop l [])"
  by (simp add: foldLine_def foldLoop_short)

lemma foldLine_short: "length l \<le> 72 \<Longrightarrow> foldLine l = l"
  by (simp add: foldLine_def)

lemma foldLine_long:
  "length l > 72 \<Longrightarrow> foldLine l = take 72 l @ uCRLF @ foldLine (L (CHR '' '') # drop 72 l)"
  by (simp add: foldLine_joined foldLoop_long joinWith_Cons foldLoop_nonempty)

lemma foldLine_hd: "l \<noteq> [] \<Longrightarrow> foldLine l \<noteq> [] \<and> hd (foldLine l) = hd l"
  by (cases "length l > 72") (auto simp: foldLine_long foldLine_short hd_append)

text \<open>Unfolding leaves a stretch without line feeds alone.\<close>

lemma unfold_plain_char:
  "c \<noteq> uCR \<Longrightarrow> c \<noteq> uLF \<Longrightarrow> unfoldLines (c # cs) = c # unfoldLines cs"
  by (simp add: unfoldLines.simps)

lemma unfold_break:
  "\<not> isFoldWs c \<Longrightarrow> unfoldLines (uCR # uLF # c # cs) = uCR # uLF # unfoldLines (c # cs)"
  by (simp add: unfoldLines.simps)

lemma unfold_fold_break:
  "isFoldWs c \<Longrightarrow> unfoldLines (uCR # uLF # c # cs) = unfoldLines cs"
  by (simp add: unfoldLines.simps)


lemma unfold_no_LF:
  assumes "uLF \<notin> set l" and "t = [] \<or> hd t \<noteq> uLF"
  shows "unfoldLines (l @ t) = l @ unfoldLines t"
  using assms
proof (induction l)
  case Nil
  then show ?case by simp
next
  case (Cons c l)
  have "\<not> (case l @ t of x # w # r \<Rightarrow> x = uLF \<and> isFoldWs w | _ \<Rightarrow> False)"
    using Cons.prems by (cases l; cases t) (auto split: list.splits)
  moreover from Cons.prems have "c \<noteq> uLF" by auto
  ultimately show ?case using Cons by (simp add: unfoldLines.simps)
qed

lemma unfold_foldLine:
  assumes "uLF \<notin> set l" and "t = [] \<or> hd t \<noteq> uLF"
  shows "unfoldLines (foldLine l @ t) = l @ unfoldLines t"
  using assms(1)
proof (induction "length l" arbitrary: l rule: less_induct)
  case less
  show ?case
  proof (cases "length l > 72")
    case False
    then show ?thesis using less.prems assms(2) by (simp add: foldLine_short unfold_no_LF)
  next
    case True
    let ?r = "L (CHR '' '') # drop 72 l"
    have lt: "length ?r < length l" using True by simp
    have nl: "uLF \<notin> set ?r" using less.prems by (auto dest: in_set_dropD)
    from foldLine_hd [of ?r] obtain x where x: "foldLine ?r = L (CHR '' '') # x"
      by (cases "foldLine ?r") auto
    have ih: "unfoldLines (foldLine ?r @ t) = ?r @ unfoldLines t"
      by (rule less.hyps [OF lt nl])
    then have tail: "unfoldLines (x @ t) = drop 72 l @ unfoldLines t"
      by (simp add: x unfold_plain_char)
    have "uLF \<notin> set (take 72 l)" using less.prems by (auto dest: in_set_takeD)
    then have "unfoldLines (take 72 l @ (uCR # uLF # L (CHR '' '') # x @ t))
                = take 72 l @ unfoldLines (uCR # uLF # L (CHR '' '') # x @ t)"
      by (rule unfold_no_LF) simp
    also have "\<dots> = take 72 l @ unfoldLines (x @ t)"
      by (simp add: unfold_fold_break isFoldWs_def)
    also have "\<dots> = l @ unfoldLines t"
      using tail by (simp add: append_assoc [symmetric] del: append_assoc)
    finally show ?thesis using True by (simp add: foldLine_long x)
  qed
qed

definition goodStart :: "ustring \<Rightarrow> bool" where
  "goodStart l = (l \<noteq> [] \<and> \<not> isFoldWs (hd l))"

lemma unfold_break_foldLine:
  assumes "goodStart l" and "uLF \<notin> set l" and "t = [] \<or> hd t \<noteq> uLF"
  shows "unfoldLines (uCR # uLF # foldLine l @ t) = uCR # uLF # l @ unfoldLines t"
proof -
  from assms(1) foldLine_hd [of l] obtain c x where x: "foldLine l = c # x" and "\<not> isFoldWs c"
    by (cases "foldLine l") (auto simp: goodStart_def)
  then have "unfoldLines (uCR # uLF # foldLine l @ t) = uCR # uLF # unfoldLines (foldLine l @ t)"
    by (simp add: unfold_break)
  then show ?thesis using unfold_foldLine [OF assms(2,3)] by simp
qed


subsection \<open>Escaping\<close>

lemma set_replaceAll:
  "set (replaceAll c r v) = (set v - {c}) \<union> (if c \<in> set v then set r else {})"
  by (induction v) (auto simp: replaceAll_def)

lemma replaceAll_absent: "c \<notin> set v \<Longrightarrow> replaceAll c r v = v"
  by (induction v) (auto simp: replaceAll_def)

lemma escText_no_LF: "uLF \<notin> set (escText v)"
  by (auto simp: escText_def set_replaceAll split: if_splits)

lemma cnParam_no_LF: "uLF \<notin> set (cnParam n)"
  using escText_no_LF by (auto simp: cnParam_def split: option.splits)

text \<open>
  Text that the escaping leaves as it is, and that a line holds as it is: no backslash,
  semicolon or comma, and no line terminator (LF, CR, U+2028, U+2029).
\<close>

definition plainText :: "ustring \<Rightarrow> bool" where
  "plainText s =
     (\<forall>c \<in> set s. \<not> isLineTerminatorU c \<and> c \<noteq> uBSL \<and> c \<noteq> L (CHR '';'') \<and> c \<noteq> L (CHR '',''))"

lemma escText_plain:
  assumes "plainText s"
  shows "escText s = s"
proof -
  from assms have "\<not> isLineTerminatorU uLF \<or> uLF \<notin> set s" "\<not> isLineTerminatorU uCR \<or> uCR \<notin> set s"
    "uBSL \<notin> set s" "L (CHR '';'') \<notin> set s" "L (CHR '','') \<notin> set s"
    by (auto simp: plainText_def)
  then have "uBSL \<notin> set s" "uLF \<notin> set s" "uCR \<notin> set s"
    "L (CHR '';'') \<notin> set s" "L (CHR '','') \<notin> set s"
    by (simp_all add: isLineTerminator_def)
  then show ?thesis by (simp add: escText_def replaceAll_absent)
qed

lemma line_plain:
  assumes "plainText s"
  shows "takeWhile (\<lambda>x. \<not> isLineTerminatorU x) s = s"
  using assms by (simp add: plainText_def takeWhile_eq_all_conv)

subsection \<open>The date lines\<close>

lemma digitChar_digit: "digitChar n \<in> set ''0123456789''"
proof -
  have "n mod 10 < length ''0123456789''" by simp
  then show ?thesis unfolding digitChar_def by (rule nth_mem)
qed

lemma showNat_digits: "set (showNat n) \<subseteq> set ''0123456789''"
proof (induction n rule: showNat.induct)
  case (1 n)
  show ?case
  proof (cases "n < 10")
    case True
    then show ?thesis using digitChar_digit [of n] by (simp add: showNat_digit)
  next
    case False
    then show ?thesis
      using 1 digitChar_digit [of n] by (simp add: showNat_more)
  qed
qed

lemma showInt_no_LF: "LF \<notin> set (showInt i)"
  using showNat_digits by (auto simp: showInt_def)

lemma pad2_no_LF: "LF \<notin> set (pad2 i)"
  using showInt_no_LF by (auto simp: pad2_def padStart_def)

lemma toIcsDateTime_no_LF: "toIcsDateTime rt x = Inr d \<Longrightarrow> uLF \<notin> set (js d)"
  using showInt_no_LF pad2_no_LF
  by (auto simp: toIcsDateTime_def Let_def split: option.splits prod.splits)

lemma toIcsDateTime_Inr: "dateParse rt x = Some t \<Longrightarrow> \<exists>d. toIcsDateTime rt x = Inr d"
  by (simp add: toIcsDateTime_def Let_def split: prod.splits)

subsection \<open>Finding a property line\<close>

lemma matchField_no_LF: "uLF \<notin> set l \<Longrightarrow> matchField key (l @ t) = matchField key t"
  by (induction l) auto

lemma takeWhile_stop: "\<not> P y \<Longrightarrow> takeWhile P (xs @ y # ys) = takeWhile P xs"
  by (induction xs) auto


subsection \<open>The round trip of the title and the uid\<close>

text \<open>
  The identifiers that \<open>randomUUID\<close> returns: 36 characters, each a lower-case hexadecimal
  digit or a hyphen.
\<close>

definition uuidChar :: "char \<Rightarrow> bool" where
  "uuidChar c = (c \<in> set ''0123456789abcdef-'')"

definition isUuid :: "string \<Rightarrow> bool" where
  "isUuid u = (length u = 36 \<and> list_all uuidChar u)"

lemma uuidChar_plain: "uuidChar c \<Longrightarrow> \<not> isWs c \<and> \<not> isLineTerminator c \<and> c \<noteq> LF"
  by (auto simp: uuidChar_def isWs_def isLineTerminator_def)

lemma trimU_js: "trimU (js s) = js (trim s)"
proof -
  have "dropWhile isWsU (map L xs) = map L (dropWhile isWs xs)" for xs
    by (induction xs) auto
  then show ?thesis by (simp add: trimU_def trim_def rev_map)
qed

lemma isUuid_plain:
  assumes "isUuid u"
  shows "uLF \<notin> set (js u)" and "takeWhile (\<lambda>x. \<not> isLineTerminatorU x) (js u) = js u"
    and "trimU (js u) = js u"
proof -
  from assms have all: "\<forall>c \<in> set u. uuidChar c" and ne: "u \<noteq> []"
    by (auto simp: isUuid_def list_all_iff)
  show "uLF \<notin> set (js u)" using all uuidChar_plain by auto
  show "takeWhile (\<lambda>x. \<not> isLineTerminatorU x) (js u) = js u"
    using all uuidChar_plain by (auto simp: takeWhile_eq_all_conv)
  from ne all have "uuidChar (hd u)" and "uuidChar (last u)" by simp_all
  then have "trim u = u" using trim_id [OF ne] uuidChar_plain by blast
  then show "trimU (js u) = js u" by (simp add: trimU_js)
qed

text \<open>The lines that follow the SUMMARY line.\<close>

definition afterSummary :: "CreateEventInput \<Rightarrow> ustring list" where
  "afterSummary input =
     (if truthy (description input)
      then [foldLine (js ''DESCRIPTION:'' @ escText (the (description input)))]
      else [])
     @ (if truthy (location input)
        then [foldLine (js ''LOCATION:'' @ escText (the (location input)))]
        else [])
     @ (case attendees input of
          None \<Rightarrow> []
        | Some as \<Rightarrow>
            map (\<lambda>a. foldLine (js ''ATTENDEE'' @ cnParam (att_name a) @ js '':mailto:''
                                @ att_email a)) as)
     @ [js ''END:VEVENT'', js ''END:VCALENDAR'']"

lemma goodStart_foldLine: "goodStart l \<Longrightarrow> goodStart (foldLine l)"
  using foldLine_hd [of l] by (simp add: goodStart_def)

lemma afterSummary_start: "afterSummary input \<noteq> [] \<and> goodStart (hd (afterSummary input))"
proof -
  have e: "goodStart (L (CHR ''D'') # x)" "goodStart (L (CHR ''L'') # x)"
    "goodStart (L (CHR ''A'') # x)" "goodStart (L (CHR ''E'') # x)" for x
    by (simp_all add: goodStart_def isFoldWs_def)
  then have g: "goodStart (foldLine (L (CHR ''D'') # x))" "goodStart (foldLine (L (CHR ''L'') # x))"
    "goodStart (foldLine (L (CHR ''A'') # x))" for x
    by (simp_all only: goodStart_foldLine)
  show ?thesis
    by (cases "attendees input"; cases "the (attendees input)")
       (simp_all add: afterSummary_def g e)
qed

lemma joinWith_start:
  assumes "ls \<noteq> []" and "goodStart (hd ls)"
  shows "\<exists>c T. joinWith sep ls @ z = c # T \<and> \<not> isFoldWs c"
proof -
  from assms obtain c x r where "ls = (c # x) # r" and "\<not> isFoldWs c"
    by (cases ls; cases "hd ls") (auto simp: goodStart_def)
  then show ?thesis by (cases r) auto
qed

text \<open>
  What the parser reads from a built event, whatever the title: the escaped title up to
  its first line terminator, trimmed, and the uid.
\<close>

lemma parse_of_build:
  assumes b: "buildIcsEvent rt input = Inr out"
    and o: "uLF \<notin> set (organizerEmail input)"
    and u: "isUuid (randomUUID rt)"
  shows "sum_title (parseIcsSummary (ev_ics out))
           = Some (trimU (takeWhile (\<lambda>x. \<not> isLineTerminatorU x) (escText (title input))))"
    and "sum_uid (parseIcsSummary (ev_ics out)) = Some (js (ev_uid out))"
proof -
  from b obtain dtstamp dtstart dtend where
    d: "toIcsDateTime rt (js (toISOString (nowMs rt))) = Inr dtstamp"
       "toIcsDateTime rt (start input) = Inr dtstart"
       "toIcsDateTime rt (end' input) = Inr dtend"
    and uid: "ev_uid out = randomUUID rt"
    and ics: "ev_ics out = joinWith uCRLF
       (js ''BEGIN:VCALENDAR'' # js ''VERSION:2.0'' # js ''PRODID:-//fastmail-mcp//EN''
        # js ''CALSCALE:GREGORIAN'' # js ''BEGIN:VEVENT'' # (js ''UID:'' @ js (randomUUID rt))
        # (js ''DTSTAMP:'' @ js dtstamp) # (js ''DTSTART:'' @ js dtstart)
        # (js ''DTEND:'' @ js dtend)
        # foldLine (js ''ORGANIZER'' @ cnParam (organizerName input) @ js '':mailto:''
                    @ organizerEmail input)
        # foldLine (js ''SUMMARY:'' @ escText (title input))
        # afterSummary input) @ uCRLF"
    by (auto simp: buildIcsEvent_def Let_def afterSummary_def split: sum.splits
             simp del: joinWith.simps)
  note nl = toIcsDateTime_no_LF [OF d(1)] toIcsDateTime_no_LF [OF d(2)]
    toIcsDateTime_no_LF [OF d(3)]
  note un = isUuid_plain [OF u]
  from afterSummary_start [of input] have ne: "afterSummary input \<noteq> []" by simp
  from joinWith_start [of "afterSummary input" uCRLF uCRLF] afterSummary_start [of input]
  obtain c T where ct: "joinWith uCRLF (afterSummary input) @ uCRLF = c # T"
    and c: "\<not> isFoldWs c" by blast
  have unf: "unfoldLines (ev_ics out) =
      js ''BEGIN:VCALENDAR'' @ uCRLF @ js ''VERSION:2.0'' @ uCRLF
      @ js ''PRODID:-//fastmail-mcp//EN'' @ uCRLF @ js ''CALSCALE:GREGORIAN'' @ uCRLF
      @ js ''BEGIN:VEVENT'' @ uCRLF
      @ js ''UID:'' @ js (randomUUID rt) @ uCRLF @ js ''DTSTAMP:'' @ js dtstamp @ uCRLF
      @ js ''DTSTART:'' @ js dtstart @ uCRLF @ js ''DTEND:'' @ js dtend @ uCRLF
      @ js ''ORGANIZER'' @ cnParam (organizerName input) @ js '':mailto:'' @ organizerEmail input
      @ uCRLF @ js ''SUMMARY:'' @ escText (title input) @ uCR # uLF # unfoldLines (c # T)"
    using nl un(1) o c cnParam_no_LF [of "organizerName input"]
      escText_no_LF [of "title input"]
    by (simp add: ics joinWith_Cons ne ct unfold_plain_char unfold_break unfold_no_LF
          unfold_break_foldLine goodStart_def isFoldWs_def)
  have "getOne (unfoldLines (ev_ics out)) (js ''SUMMARY'')
          = Some (trimU (takeWhile (\<lambda>x. \<not> isLineTerminatorU x) (escText (title input))))"
    using nl un(1) o cnParam_no_LF [of "organizerName input"]
    by (simp add: unf getOne_def matchField_no_LF takeWhile_stop isLineTerminator_def)
  then show "sum_title (parseIcsSummary (ev_ics out))
               = Some (trimU (takeWhile (\<lambda>x. \<not> isLineTerminatorU x) (escText (title input))))"
    by (simp add: parseIcsSummary_def Let_def)
  have "getOne (unfoldLines (ev_ics out)) (js ''UID'') = Some (js (randomUUID rt))"
    by (simp add: unf getOne_def un(2) un(3) takeWhile_stop isLineTerminator_def)
  then show "sum_uid (parseIcsSummary (ev_ics out)) = Some (js (ev_uid out))"
    by (simp add: parseIcsSummary_def Let_def uid)
qed

lemma buildIcsEvent_uid: "buildIcsEvent rt input = Inr out \<Longrightarrow> ev_uid out = randomUUID rt"
  by (auto simp: buildIcsEvent_def Let_def split: sum.splits)

lemma buildIcsEvent_Inr:
  assumes "dateParse rt (js (toISOString (nowMs rt))) = Some t0"
    and "dateParse rt (start input) = Some t1"
    and "dateParse rt (end' input) = Some t2"
  shows "\<exists>out. buildIcsEvent rt input = Inr out"
proof -
  from toIcsDateTime_Inr [OF assms(1)] obtain d0 where
    "toIcsDateTime rt (js (toISOString (nowMs rt))) = Inr d0" by blast
  moreover from toIcsDateTime_Inr [OF assms(2)] obtain d1 where
    "toIcsDateTime rt (start input) = Inr d1" by blast
  moreover from toIcsDateTime_Inr [OF assms(3)] obtain d2 where
    "toIcsDateTime rt (end' input) = Inr d2" by blast
  ultimately show ?thesis by (simp add: buildIcsEvent_def Let_def)
qed

text \<open>
  C2 (as the code has it). When the event is built (both times parse) and the
  organizer's address contains no line feed, parsing the built text gives back the
  generated uid and, for the title, the escaped title up to its first line terminator,
  trimmed. That is the title itself when the title contains no backslash, semicolon,
  comma or line terminator (LF, CR, U+2028, U+2029) and has no white space at either end.
\<close>

theorem ics_roundtrip:
  assumes "buildIcsEvent rt input = Inr out"
    and "uLF \<notin> set (organizerEmail input)"
    and "isUuid (randomUUID rt)"
  shows "sum_uid (parseIcsSummary (ev_ics out)) = Some (js (ev_uid out))
         \<and> sum_title (parseIcsSummary (ev_ics out))
             = Some (trimU (takeWhile (\<lambda>x. \<not> isLineTerminatorU x) (escText (title input))))
         \<and> (plainText (title input) \<and> trimU (title input) = title input
              \<longrightarrow> sum_title (parseIcsSummary (ev_ics out)) = Some (title input))"
  using parse_of_build [OF assms] by (simp add: escText_plain line_plain)

text \<open>
  A runtime for the examples: the host in UTC, at 2026-03-08T03:30:00Z, that parses the
  three date strings the examples use.
\<close>

definition sampleRuntime :: runtime where
  "sampleRuntime = utcHost\<lparr>dateParse :=
     (\<lambda>s. if s = js ''2026-03-08T03:30:00.000Z'' then Some 1772940600000
          else if s = js ''2026-03-08T09:00:00Z'' then Some 1772960400000
          else if s = js ''2026-03-08T10:00:00Z'' then Some 1772964000000
          else None)\<rparr>"

definition sampleEvent :: "ustring \<Rightarrow> CreateEventInput" where
  "sampleEvent t =
     \<lparr>title = t, start = js ''2026-03-08T09:00:00Z'', end' = js ''2026-03-08T10:00:00Z'',
      description = None, location = Some (js ''Room 1''),
      organizerEmail = js ''me@example.com'', organizerName = None,
      attendees = Some [\<lparr>att_email = js ''a@example.com'', att_name = Some (js ''A, B'')\<rparr>]\<rparr>"

lemma toISOString_0330: "toISOString 1772940600000 = ''2026-03-08T03:30:00.000Z''"
  by code_simp

lemma sampleEvent_built: "\<exists>out. buildIcsEvent sampleRuntime (sampleEvent t) = Inr out"
  by (rule buildIcsEvent_Inr [where ?t0.0 = 1772940600000 and ?t1.0 = 1772960400000
        and ?t2.0 = 1772964000000])
     (simp_all add: sampleRuntime_def sampleEvent_def utcHost_def toISOString_0330)

lemma sample_uuid: "isUuid (randomUUID sampleRuntime)"
  by (simp add: sampleRuntime_def utcHost_def isUuid_def uuidChar_def)

theorem ics_roundtrip_witness:
  "\<exists>out. buildIcsEvent sampleRuntime (sampleEvent (js ''Team sync'')) = Inr out
         \<and> sum_title (parseIcsSummary (ev_ics out)) = Some (js ''Team sync'')
         \<and> sum_uid (parseIcsSummary (ev_ics out))
             = Some (js ''123e4567-e89b-42d3-a456-426614174000'')"
proof -
  from sampleEvent_built obtain out where
    b: "buildIcsEvent sampleRuntime (sampleEvent (js ''Team sync'')) = Inr out" by blast
  have p: "plainText (title (sampleEvent (js ''Team sync'')))"
    by (simp add: sampleEvent_def plainText_def isLineTerminator_def)
  have tr: "trimU (title (sampleEvent (js ''Team sync''))) = title (sampleEvent (js ''Team sync''))"
    by (simp add: sampleEvent_def trimU_def isWs_def)
  have o: "uLF \<notin> set (organizerEmail (sampleEvent (js ''Team sync'')))"
    by (simp add: sampleEvent_def)
  have t: "title (sampleEvent x) = x" for x
    by (simp add: sampleEvent_def)
  have "ev_uid out = ''123e4567-e89b-42d3-a456-426614174000''"
    using buildIcsEvent_uid [OF b] by (simp add: sampleRuntime_def utcHost_def)
  moreover have "sum_uid (parseIcsSummary (ev_ics out)) = Some (js (ev_uid out))
      \<and> sum_title (parseIcsSummary (ev_ics out)) = Some (title (sampleEvent (js ''Team sync'')))"
    using ics_roundtrip [OF b o sample_uuid] p tr by blast
  ultimately show ?thesis using b by (simp add: t)
qed

lemma sample_parse:
  "\<not> isl (buildIcsEvent sampleRuntime (sampleEvent t))
   \<and> sum_title (parseIcsSummary (ev_ics (projr (buildIcsEvent sampleRuntime (sampleEvent t)))))
       = Some (trimU (takeWhile (\<lambda>x. \<not> isLineTerminatorU x) (escText t)))"
proof -
  from sampleEvent_built obtain out where
    b: "buildIcsEvent sampleRuntime (sampleEvent t) = Inr out" by blast
  have o: "uLF \<notin> set (organizerEmail (sampleEvent t))"
    by (simp add: sampleEvent_def)
  have t: "title (sampleEvent t) = t"
    by (simp add: sampleEvent_def)
  from parse_of_build(1) [OF b o sample_uuid] show ?thesis
    by (simp add: b t)
qed

text \<open>
  The claim as stated fails: the comma of the title \<open>a,b\<close> is escaped on the way out and
  not unescaped on the way in, so the parsed title is \<open>a\,b\<close>.
\<close>

theorem ics_roundtrip_counterexample:
  "\<not> isl (buildIcsEvent sampleRuntime (sampleEvent (js ''a,b'')))
   \<and> sum_title (parseIcsSummary
        (ev_ics (projr (buildIcsEvent sampleRuntime (sampleEvent (js ''a,b''))))))
       = Some [L (CHR ''a''), uBSL, L (CHR '',''), L (CHR ''b'')]
   \<and> sum_title (parseIcsSummary
        (ev_ics (projr (buildIcsEvent sampleRuntime (sampleEvent (js ''a,b''))))))
       \<noteq> Some (title (sampleEvent (js ''a,b'')))"
  using sample_parse [of "js ''a,b''"]
  by (simp add: sampleEvent_def escText_def replaceAll_def trimU_def isWs_def
        isLineTerminator_def)

text \<open>
  A line separator in the title is neither escaped nor folded away, and the parser's
  \<open>.*\<close> stops at it: of the title \<open>a\<close>, U+2028, \<open>b\<close> the parser returns \<open>a\<close>.
\<close>

lemma title_cut_at_line_separator:
  "sum_title (parseIcsSummary
      (ev_ics (projr (buildIcsEvent sampleRuntime
         (sampleEvent [L (CHR ''a''), H 0x2028, L (CHR ''b'')])))))
     = Some (js ''a'')"
  using sample_parse [of "[L (CHR ''a''), H 0x2028, L (CHR ''b'')]"]
  by (simp add: escText_def replaceAll_def trimU_def isWs_def isLineTerminator_def)

section \<open>vCard codec (dav/vcard.ts)\<close>















subsection \<open>The parsers return\<close>














subsection \<open>The values of a text of lines\<close>















subsection \<open>The structured name\<close>






















section \<open>Calendar rights and the gated calendar tools (index.ts)\<close>

record DavRights =
  privileges :: "string list"
  canRead :: bool
  canWrite :: bool

text \<open>
  Reading a parsed response: \<open>getProp k j\<close> is \<open>j?.k\<close> for the property names used here
  (none of which an array or a primitive has), \<open>first j\<close> is \<open>j?.[0]\<close>. The pairs of a
  \<open>JObj\<close> are in the order of \<open>Object.keys\<close>.
\<close>

definition getProp :: "string \<Rightarrow> json \<Rightarrow> json" where
  "getProp k j =
     (case j of
        JObj kvs \<Rightarrow> (case map_of kvs k of Some v \<Rightarrow> v | None \<Rightarrow> JUndefined)
      | _ \<Rightarrow> JUndefined)"

definition first :: "json \<Rightarrow> json" where
  "first j =
     (case j of
        JArr xs \<Rightarrow> (case xs of [] \<Rightarrow> JUndefined | x # _ \<Rightarrow> x)
      | JObj kvs \<Rightarrow> getProp ''0'' j
      | JStr s \<Rightarrow> (case s of [] \<Rightarrow> JUndefined | c # _ \<Rightarrow> JStr [c])
      | _ \<Rightarrow> JUndefined)"

definition truthyJ :: "json \<Rightarrow> bool" where
  "truthyJ j =
     (case j of
        JUndefined \<Rightarrow> False
      | JNull \<Rightarrow> False
      | JBool b \<Rightarrow> b
      | JNum n \<Rightarrow> n \<noteq> 0
      | JStr s \<Rightarrow> s \<noteq> []
      | JArr xs \<Rightarrow> True
      | JObj kvs \<Rightarrow> True)"

text \<open>\<open>item && typeof item === 'object'\<close>, and \<open>Object.keys(item)\<close> of such an item.\<close>

definition isObject :: "json \<Rightarrow> bool" where
  "isObject j = (case j of JObj kvs \<Rightarrow> True | JArr xs \<Rightarrow> True | _ \<Rightarrow> False)"

definition objectKeys :: "json \<Rightarrow> string list" where
  "objectKeys j =
     (case j of
        JObj kvs \<Rightarrow> map fst kvs
      | JArr xs \<Rightarrow> map showNat [0..<length xs]
      | _ \<Rightarrow> [])"

text \<open>\<open>Array.from(new Set(out))\<close>: the first occurrence of every element, in order.\<close>

definition dedupe :: "string list \<Rightarrow> string list" where
  "dedupe out = rev (remdups (rev out))"

definition extractDavPrivileges :: "json \<Rightarrow> string list" where
  "extractDavPrivileges currentUserPrivilegeSet =
     (let privilege = getProp ''privilege'' currentUserPrivilegeSet;
          items = (case privilege of
                     JArr xs \<Rightarrow> xs
                   | _ \<Rightarrow> if truthyJ privilege then [privilege] else []);
          out = concat (map (\<lambda>item. if isObject item
                                     then filter (\<lambda>k. k \<noteq> ''_attributes'') (objectKeys item)
                                     else []) items)
      in dedupe out)"

definition computeDavRights :: "string list \<Rightarrow> DavRights" where
  "computeDavRights privs =
     \<lparr>privileges = privs,
      canRead = (''read'' \<in> set privs \<or> ''all'' \<in> set privs),
      canWrite = (''write'' \<in> set privs \<or> ''writeContent'' \<in> set privs
                  \<or> ''writeProperties'' \<in> set privs \<or> ''all'' \<in> set privs)\<rparr>"

text \<open>
  \<open>getCalendarRights\<close>, given what \<open>caldav.propfind\<close> answered: a rejection is caught and
  gives \<open>null\<close>.
\<close>

definition getCalendarRights :: "string + json \<Rightarrow> DavRights option" where
  "getCalendarRights probe =
     (case probe of
        Inl e \<Rightarrow> None
      | Inr res \<Rightarrow>
          (let props = getProp ''props'' (first res);
               privs = extractDavPrivileges (getProp ''currentUserPrivilegeSet'' props)
           in if privs = [] then None else Some (computeDavRights privs)))"

record procEnv =
  FASTMAIL_ORGANIZER_EMAIL :: "ustring option"
  FASTMAIL_USERNAME :: "ustring option"
  FASTMAIL_DAV_USERNAME :: "ustring option"

definition orElse :: "ustring option \<Rightarrow> ustring option \<Rightarrow> ustring option" where
  "orElse a b = (if truthy a then a else b)"

text \<open>
  The arguments of the tool \<open>create_calendar_event\<close> other than the calendar id. The
  schema \<open>isoDatetime\<close> admits, for the start and the end, texts of ASCII characters only.
\<close>

record CreateEventArgs =
  arg_title :: ustring
  arg_start :: string
  arg_end :: string
  arg_description :: "ustring option"
  arg_location :: "ustring option"
  arg_attendees :: "attendee list option"

text \<open>
  The steps of \<open>create_calendar_event\<close> between the gate and the write (lines 604 to
  620): the organizer from the environment, the time zone of the calendar, the two times
  made offset-aware, and the event built.
\<close>

definition prepareEvent ::
  "runtime \<Rightarrow> procEnv \<Rightarrow> calendar \<Rightarrow> CreateEventArgs \<Rightarrow> error + IcsEvent" where
  "prepareEvent rt penv cal args =
     (case orElse (FASTMAIL_ORGANIZER_EMAIL penv)
             (orElse (FASTMAIL_USERNAME penv) (FASTMAIL_DAV_USERNAME penv)) of
        None \<Rightarrow> Inl MissingOrganizer
      | Some organizer \<Rightarrow>
          if organizer = [] then Inl MissingOrganizer
          else
     (let tz = resolveTimezone rt (extractCalendarTimezone (timezone cal))
      in case ensureOffsetAware rt (arg_start args) tz of
           Inl e \<Rightarrow> Inl e
         | Inr startUtc \<Rightarrow>
     (case ensureOffsetAware rt (arg_end args) tz of
        Inl e \<Rightarrow> Inl e
      | Inr endUtc \<Rightarrow>
          buildIcsEvent rt
            \<lparr>title = arg_title args, start = js startUtc, end' = js endUtc,
             description = arg_description args, location = arg_location args,
             organizerEmail = organizer, organizerName = None,
             attendees = arg_attendees args\<rparr>)))"

definition create_calendar_event ::
  "runtime \<Rightarrow> procEnv \<Rightarrow> caldav \<Rightarrow> string \<Rightarrow> CreateEventArgs
   \<Rightarrow> (error + string \<times> string) \<times> call list" where
  "create_calendar_event rt penv dav calendarId args =
     (case login dav of
        Inl e \<Rightarrow> (Inl (External e), [Login])
      | Inr _ \<Rightarrow>
     (case fetchCalendars dav of
        Inl e \<Rightarrow> (Inl (External e), [Login, FetchCalendars])
      | Inr calendars \<Rightarrow>
     (case find_first (\<lambda>c. url c = calendarId) calendars of
        None \<Rightarrow> (Inl CalendarNotFound, [Login, FetchCalendars])
      | Some cal \<Rightarrow>
     (let rights = getCalendarRights (propfind dav (url cal));
          calls = [Login, FetchCalendars, Propfind (url cal)]
      in if (case rights of None \<Rightarrow> False | Some r \<Rightarrow> \<not> canWrite r)
         then (Inl ReadOnly, calls)
         else
     (case prepareEvent rt penv cal args of
        Inl e \<Rightarrow> (Inl e, calls)
      | Inr built \<Rightarrow>
     (let calls' = calls @ [CreateCalendarObject (url cal) (ev_ics built) (ev_filename built)]
      in case createCalendarObject dav cal (ev_ics built) (ev_filename built) of
           Inl e \<Rightarrow> (Inl (External e), calls')
         | Inr res \<Rightarrow>
             if \<not> ok res
             then (Inl (CreateFailed (status res)
                          (take 500 (case body res of Inl e \<Rightarrow> [] | Inr b \<Rightarrow> b))), calls')
             else
               (case urlResolve rt (ev_filename built) (url cal) of
                  None \<Rightarrow> (Inl (External ''Invalid URL''), calls')
                | Some eventUrl \<Rightarrow> (Inr (ev_uid built, eventUrl), calls'))))))))"

text \<open>
  The tool \<open>update_calendar\<close>. An argument that is \<open>undefined\<close> is \<open>None\<close>. \<open>calendarProps\<close>
  is the object \<open>setProps\<close> (lines 418 to 422), its members in the order of their
  insertion.
\<close>

record UpdateCalendarArgs =
  upd_name :: "ustring option"
  upd_description :: "ustring option"
  upd_color :: "ustring option"
  upd_timezone :: "string option"

definition calendarProps ::
  "runtime \<Rightarrow> UpdateCalendarArgs \<Rightarrow> error + (string \<times> ustring) list" where
  "calendarProps rt args =
     (let props =
            (case upd_name args of None \<Rightarrow> [] | Some n \<Rightarrow> [(''displayname'', n)])
            @ (case upd_description args of
                 None \<Rightarrow> [] | Some d \<Rightarrow> [(''c:calendar-description'', d)])
            @ (case upd_color args of None \<Rightarrow> [] | Some c \<Rightarrow> [(''ca:calendar-color'', c)])
      in case upd_timezone args of
           None \<Rightarrow> Inr props
         | Some tz \<Rightarrow>
             (case buildCalendarTimezoneProperty rt tz of
                Inl e \<Rightarrow> Inl e
              | Inr blob \<Rightarrow> Inr (props @ [(''c:calendar-timezone'', js blob)])))"

definition update_calendar ::
  "runtime \<Rightarrow> caldav \<Rightarrow> string \<Rightarrow> UpdateCalendarArgs \<Rightarrow> (error + string) \<times> call list" where
  "update_calendar rt dav calendarId args =
     (if upd_name args = None \<and> upd_description args = None \<and> upd_color args = None
         \<and> upd_timezone args = None
      then (Inl NoPropertyGiven, [])
      else if (case upd_timezone args of None \<Rightarrow> False | Some tz \<Rightarrow> \<not> isValidTimezone rt tz)
      then (Inl (InvalidTimezone (the (upd_timezone args))), [])
      else
     (case login dav of
        Inl e \<Rightarrow> (Inl (External e), [Login])
      | Inr _ \<Rightarrow>
     (case fetchCalendars dav of
        Inl e \<Rightarrow> (Inl (External e), [Login, FetchCalendars])
      | Inr calendars \<Rightarrow>
     (case find_first (\<lambda>c. url c = calendarId) calendars of
        None \<Rightarrow> (Inl CalendarNotFound, [Login, FetchCalendars])
      | Some cal \<Rightarrow>
     (let rights = getCalendarRights (propfind dav calendarId);
          calls = [Login, FetchCalendars, Propfind calendarId]
      in if (case rights of None \<Rightarrow> False | Some r \<Rightarrow> \<not> canWrite r)
         then (Inl ReadOnly, calls)
         else
     (case calendarProps rt args of
        Inl e \<Rightarrow> (Inl e, calls)
      | Inr setProps \<Rightarrow>
     (let calls' = calls @ [DavRequest calendarId setProps]
      in case davRequest dav calendarId setProps of
           Inl e \<Rightarrow> (Inl (External e), calls')
         | Inr _ \<Rightarrow> (Inr ''OK'', calls'))))))))"


subsection \<open>The gate\<close>

text \<open>
  The privilege set of a probe's answer, in the words of the claim: the names of the
  privileges that the first entry of the answer lists under \<open>props\<close>,
  \<open>currentUserPrivilegeSet\<close>, \<open>privilege\<close>, that member being one item or a list of items.
  The names of an item are the names of its members other than \<open>_attributes\<close> (for an item
  that is itself a list, its indices, as \<open>Object.keys\<close> has them).
\<close>

definition privilegeNames :: "json \<Rightarrow> string set" where
  "privilegeNames item =
     (case item of
        JObj kvs \<Rightarrow> fst ` set kvs - {''_attributes''}
      | JArr xs \<Rightarrow> showNat ` {..<length xs} - {''_attributes''}
      | _ \<Rightarrow> {})"

definition privilegeSet :: "json \<Rightarrow> string set" where
  "privilegeSet res =
     (case getProp ''privilege''
             (getProp ''currentUserPrivilegeSet'' (getProp ''props'' (first res))) of
        JArr items \<Rightarrow> (\<Union>item \<in> set items. privilegeNames item)
      | item \<Rightarrow> privilegeNames item)"

text \<open>
  The claim's condition on the probe: it succeeds and yields a non-empty privilege set
  that contains none of \<open>write\<close>, \<open>writeContent\<close>, \<open>writeProperties\<close>, \<open>all\<close>.
\<close>

definition probeBlocks :: "string + json \<Rightarrow> bool" where
  "probeBlocks probe =
     (case probe of
        Inl e \<Rightarrow> False
      | Inr res \<Rightarrow>
          privilegeSet res \<noteq> {}
          \<and> privilegeSet res \<inter> {''write'', ''writeContent'', ''writeProperties'', ''all''} = {})"

text \<open>
  The arguments that \<open>update_calendar\<close> accepts: at least one property is given, and the
  time zone, when given, is one the runtime knows.
\<close>

definition updateAccepted :: "runtime \<Rightarrow> UpdateCalendarArgs \<Rightarrow> bool" where
  "updateAccepted rt args =
     (\<not> (upd_name args = None \<and> upd_description args = None \<and> upd_color args = None
         \<and> upd_timezone args = None)
      \<and> (case upd_timezone args of None \<Rightarrow> True | Some tz \<Rightarrow> isValidTimezone rt tz))"

lemma set_itemKeys:
  "set (if isObject item then filter (\<lambda>k. k \<noteq> ''_attributes'') (objectKeys item) else [])
     = privilegeNames item"
  by (cases item) (auto simp: isObject_def objectKeys_def privilegeNames_def atLeast0LessThan)

lemma set_itemKeys_single:
  "{x. isObject item \<and> x \<in> set (objectKeys item) \<and> x \<noteq> ''_attributes''} = privilegeNames item"
  by (cases item) (auto simp: isObject_def objectKeys_def privilegeNames_def atLeast0LessThan)

lemma set_extractDavPrivileges:
  "set (extractDavPrivileges cups)
     = (case getProp ''privilege'' cups of
          JArr items \<Rightarrow> (\<Union>item \<in> set items. privilegeNames item)
        | item \<Rightarrow> privilegeNames item)"
proof -
  have d: "set (dedupe xs) = set xs" for xs by (simp add: dedupe_def)
  have c: "set (concat (map (\<lambda>item. if isObject item
             then filter (\<lambda>k. k \<noteq> ''_attributes'') (objectKeys item) else []) items))
           = (\<Union>item \<in> set items. privilegeNames item)" for items
    using set_itemKeys by (induction items) auto
  have n: "\<not> truthyJ item \<Longrightarrow> privilegeNames item = {}" for item
    by (cases item) (auto simp: truthyJ_def privilegeNames_def)
  show ?thesis
    by (cases "getProp ''privilege'' cups"; cases "truthyJ (getProp ''privilege'' cups)")
       (simp_all add: extractDavPrivileges_def Let_def d c n set_itemKeys_single del: set_concat)
qed

lemma rights_gate:
  "(case getCalendarRights probe of None \<Rightarrow> False | Some r \<Rightarrow> \<not> canWrite r) = probeBlocks probe"
proof (cases probe)
  case (Inl e)
  then show ?thesis by (simp add: getCalendarRights_def probeBlocks_def)
next
  case (Inr res)
  let ?privs = "extractDavPrivileges
                  (getProp ''currentUserPrivilegeSet'' (getProp ''props'' (first res)))"
  have s: "set ?privs = privilegeSet res"
    by (simp add: set_extractDavPrivileges privilegeSet_def)
  have e: "(?privs = []) = (privilegeSet res = {})"
    using s by (metis set_empty)
  show ?thesis
    using s [symmetric] e
    by (simp add: Inr getCalendarRights_def computeDavRights_def probeBlocks_def Let_def)
qed

lemma find_first_url: "find_first (\<lambda>c. url c = x) cs = Some cal \<Longrightarrow> url cal = x"
  by (induction cs) (auto split: if_splits)

lemma naiveToUtcIso_not_ReadOnly: "naiveToUtcIso rt n tz \<noteq> Inl ReadOnly"
  by (simp add: naiveToUtcIso_def Let_def split: option.splits prod.splits)

lemma ensureOffsetAware_not_ReadOnly: "ensureOffsetAware rt d tz \<noteq> Inl ReadOnly"
  by (simp add: ensureOffsetAware_def naiveToUtcIso_not_ReadOnly)

lemma toIcsDateTime_not_ReadOnly: "toIcsDateTime rt x \<noteq> Inl ReadOnly"
  by (simp add: toIcsDateTime_def Let_def split: option.splits prod.splits)

lemma buildIcsEvent_not_ReadOnly: "buildIcsEvent rt input \<noteq> Inl ReadOnly"
  using toIcsDateTime_not_ReadOnly
  by (auto simp: buildIcsEvent_def Let_def split: sum.splits)

lemma prepareEvent_not_ReadOnly: "prepareEvent rt penv cal args \<noteq> Inl ReadOnly"
  using ensureOffsetAware_not_ReadOnly buildIcsEvent_not_ReadOnly
  by (auto simp: prepareEvent_def Let_def split: option.splits sum.splits)

lemma calendarProps_accepted:
  assumes "updateAccepted rt args"
  shows "\<exists>props. calendarProps rt args = Inr props"
proof (cases "upd_timezone args")
  case None
  then show ?thesis by (simp add: calendarProps_def)
next
  case (Some tz)
  with assms obtain off where "zoneOffset rt tz = Some off"
    by (auto simp: updateAccepted_def isValidTimezone_def)
  from build_blob [OF this] obtain blob where "buildCalendarTimezoneProperty rt tz = Inr blob"
    by blast
  with Some show ?thesis by (simp add: calendarProps_def)
qed

text \<open>
  What \<open>create_calendar_event\<close> returns once the request that creates the event is
  answered (lines 622 to 632): the uid and the URL of the event when the server accepts
  the request, an error otherwise.
\<close>

definition createOutcome ::
  "runtime \<Rightarrow> string \<Rightarrow> IcsEvent \<Rightarrow> string + response \<Rightarrow> error + string \<times> string" where
  "createOutcome rt calendarUrl built answer =
     (case answer of
        Inl e \<Rightarrow> Inl (External e)
      | Inr res \<Rightarrow>
          if \<not> ok res
          then Inl (CreateFailed (status res)
                      (take 500 (case body res of Inl e \<Rightarrow> [] | Inr b \<Rightarrow> b)))
          else (case urlResolve rt (ev_filename built) calendarUrl of
                  None \<Rightarrow> Inl (External ''Invalid URL'')
                | Some eventUrl \<Rightarrow> Inr (ev_uid built, eventUrl)))"

lemma create_blocked:
  assumes "login dav = Inr ()" and "fetchCalendars dav = Inr calendars"
    and "find_first (\<lambda>c. url c = calendarId) calendars = Some cal"
    and "probeBlocks (propfind dav (url cal))"
  shows "create_calendar_event rt penv dav calendarId args
           = (Inl ReadOnly, [Login, FetchCalendars, Propfind (url cal)])"
  using assms by (simp add: create_calendar_event_def rights_gate Let_def)

lemma create_proceeds:
  assumes "login dav = Inr ()" and "fetchCalendars dav = Inr calendars"
    and "find_first (\<lambda>c. url c = calendarId) calendars = Some cal"
    and "\<not> probeBlocks (propfind dav (url cal))"
  shows "fst (create_calendar_event rt penv dav calendarId args) \<noteq> Inl ReadOnly"
    and "(case prepareEvent rt penv cal args of
            Inl e \<Rightarrow> create_calendar_event rt penv dav calendarId args
                      = (Inl e, [Login, FetchCalendars, Propfind (url cal)])
          | Inr built \<Rightarrow> create_calendar_event rt penv dav calendarId args
                      = (createOutcome rt (url cal) built
                           (createCalendarObject dav cal (ev_ics built) (ev_filename built)),
                         [Login, FetchCalendars, Propfind (url cal),
                          CreateCalendarObject (url cal) (ev_ics built) (ev_filename built)]))"
  using assms prepareEvent_not_ReadOnly [of rt penv cal args]
  by (auto simp: create_calendar_event_def createOutcome_def rights_gate Let_def
           split: option.splits sum.splits)

lemma update_blocked:
  assumes "login dav = Inr ()" and "fetchCalendars dav = Inr calendars"
    and "find_first (\<lambda>c. url c = calendarId) calendars = Some cal"
    and "updateAccepted rt uargs"
    and "probeBlocks (propfind dav calendarId)"
  shows "update_calendar rt dav calendarId uargs
           = (Inl ReadOnly, [Login, FetchCalendars, Propfind calendarId])"
  using assms
  by (auto simp: update_calendar_def updateAccepted_def rights_gate Let_def split: option.splits)

lemma update_proceeds:
  assumes "login dav = Inr ()" and "fetchCalendars dav = Inr calendars"
    and "find_first (\<lambda>c. url c = calendarId) calendars = Some cal"
    and "updateAccepted rt uargs"
    and "\<not> probeBlocks (propfind dav calendarId)"
  shows "\<exists>props. calendarProps rt uargs = Inr props
           \<and> update_calendar rt dav calendarId uargs
               = (case davRequest dav calendarId props of
                    Inl e \<Rightarrow> Inl (External e) | Inr _ \<Rightarrow> Inr ''OK'',
                  [Login, FetchCalendars, Propfind calendarId, DavRequest calendarId props])"
proof -
  from calendarProps_accepted [OF assms(4)] obtain props where
    p: "calendarProps rt uargs = Inr props" by blast
  have "update_calendar rt dav calendarId uargs
               = (case davRequest dav calendarId props of
                    Inl e \<Rightarrow> Inl (External e) | Inr _ \<Rightarrow> Inr ''OK'',
                  [Login, FetchCalendars, Propfind calendarId, DavRequest calendarId props])"
    using assms p
    by (auto simp: update_calendar_def updateAccepted_def rights_gate Let_def
             split: option.splits sum.splits)
  with p show ?thesis by blast
qed

text \<open>
  C3 (as the code has it). For the tools \<open>create_calendar_event\<close> and \<open>update_calendar\<close>,
  after login, with the calendar found in the listing and the arguments of
  \<open>update_calendar\<close> accepted: the tool fails with the read-only error, having issued no
  write, exactly when the privilege probe succeeds with a non-empty privilege set that has
  none of the four writing privileges. When the probe is rejected, or yields no
  privilege, or yields one of the four, the tool does not fail with the read-only error
  and the write proceeds: \<open>update_calendar\<close> issues its request and returns \<open>OK\<close> unless
  the request is rejected, and \<open>create_calendar_event\<close> prepares the event and, unless that
  fails, issues the request that creates it and returns what the answer of the server
  makes it return.
\<close>

theorem write_gate:
  assumes "login dav = Inr ()"
    and "fetchCalendars dav = Inr calendars"
    and "find_first (\<lambda>c. url c = calendarId) calendars = Some cal"
    and "updateAccepted rt uargs"
  shows "(if probeBlocks (propfind dav calendarId)
          then create_calendar_event rt penv dav calendarId args
                 = (Inl ReadOnly, [Login, FetchCalendars, Propfind calendarId])
               \<and> update_calendar rt dav calendarId uargs
                 = (Inl ReadOnly, [Login, FetchCalendars, Propfind calendarId])
          else fst (create_calendar_event rt penv dav calendarId args) \<noteq> Inl ReadOnly
               \<and> (case prepareEvent rt penv cal args of
                     Inl e \<Rightarrow> create_calendar_event rt penv dav calendarId args
                               = (Inl e, [Login, FetchCalendars, Propfind calendarId])
                   | Inr built \<Rightarrow> create_calendar_event rt penv dav calendarId args
                               = (createOutcome rt calendarId built
                                    (createCalendarObject dav cal (ev_ics built)
                                       (ev_filename built)),
                                  [Login, FetchCalendars, Propfind calendarId,
                                   CreateCalendarObject calendarId (ev_ics built)
                                     (ev_filename built)]))
               \<and> (\<exists>props. calendarProps rt uargs = Inr props
                     \<and> update_calendar rt dav calendarId uargs
                         = (case davRequest dav calendarId props of
                              Inl e \<Rightarrow> Inl (External e) | Inr _ \<Rightarrow> Inr ''OK'',
                            [Login, FetchCalendars, Propfind calendarId,
                             DavRequest calendarId props])))"
proof -
  note u = find_first_url [OF assms(3)]
  show ?thesis
  proof (cases "probeBlocks (propfind dav calendarId)")
    case True
    with create_blocked [OF assms(1,2,3), unfolded u, of rt penv args] update_blocked [OF assms]
    show ?thesis by simp
  next
    case False
    with create_proceeds [OF assms(1,2,3), unfolded u, of rt penv args]
      update_proceeds [OF assms]
    show ?thesis by simp
  qed
qed

text \<open>
  The answers of the examples: the privilege set \<open>{read}\<close> as a list of one item, the
  privilege \<open>all\<close> as a single item with attributes, an empty privilege set, and a
  rejected probe.
\<close>

definition probeAnswer :: "json \<Rightarrow> json" where
  "probeAnswer privilege =
     JArr [JObj [(''props'',
       JObj [(''currentUserPrivilegeSet'', JObj [(''privilege'', privilege)])])]]"

definition homeCalendar :: calendar where
  "homeCalendar =
     \<lparr>url = ''https://dav.example/cal/home/'', displayName = ''Home'', timezone = None\<rparr>"

definition workCalendar :: calendar where
  "workCalendar =
     \<lparr>url = ''https://dav.example/cal/work/'', displayName = ''Work'', timezone = None\<rparr>"

definition davAnswering :: "string + json \<Rightarrow> caldav" where
  "davAnswering probe = (mockCaldav [homeCalendar, workCalendar])\<lparr>propfind := (\<lambda>u. probe)\<rparr>"

definition sampleEnv :: procEnv where
  "sampleEnv = \<lparr>FASTMAIL_ORGANIZER_EMAIL = None, FASTMAIL_USERNAME = Some (js ''me@example.com''),
      FASTMAIL_DAV_USERNAME = None\<rparr>"

definition sampleArgs :: CreateEventArgs where
  "sampleArgs =
     \<lparr>arg_title = js ''Team sync'', arg_start = ''2026-03-08T09:00:00Z'',
      arg_end = ''2026-03-08T10:00:00Z'', arg_description = None,
      arg_location = Some (js ''Room 1''), arg_attendees = None\<rparr>"

definition renameArgs :: UpdateCalendarArgs where
  "renameArgs =
     \<lparr>upd_name = Some (js ''Team''), upd_description = None, upd_color = None,
      upd_timezone = None\<rparr>"

lemma privilegeSet_examples:
  "privilegeSet (probeAnswer (JArr [JObj [(''read'', JObj [])]])) = {''read''}"
  "privilegeSet (probeAnswer (JObj [(''_attributes'', JObj []), (''all'', JObj [])])) = {''all''}"
  "privilegeSet (probeAnswer (JArr [])) = {}"
  by (auto simp: privilegeSet_def privilegeNames_def probeAnswer_def getProp_def first_def)

lemma buildIcsEvent_filename:
  "buildIcsEvent rt input = Inr out \<Longrightarrow> ev_filename out = randomUUID rt @ ''.ics''"
  by (auto simp: buildIcsEvent_def Let_def split: sum.splits)

lemma sample_prepared:
  "\<exists>built. prepareEvent sampleRuntime sampleEnv workCalendar sampleArgs = Inr built
           \<and> ev_uid built = ''123e4567-e89b-42d3-a456-426614174000''
           \<and> ev_filename built = ''123e4567-e89b-42d3-a456-426614174000.ics''"
proof -
  let ?input = "\<lparr>title = js ''Team sync'', start = js ''2026-03-08T09:00:00Z'',
      end' = js ''2026-03-08T10:00:00Z'', description = None, location = Some (js ''Room 1''),
      organizerEmail = js ''me@example.com'', organizerName = None, attendees = None\<rparr>"
  have "\<exists>out. buildIcsEvent sampleRuntime ?input = Inr out"
    by (rule buildIcsEvent_Inr [where ?t0.0 = 1772940600000 and ?t1.0 = 1772960400000
          and ?t2.0 = 1772964000000])
       (simp_all add: sampleRuntime_def utcHost_def toISOString_0330)
  then obtain out where b: "buildIcsEvent sampleRuntime ?input = Inr out" by blast
  have p: "prepareEvent sampleRuntime sampleEnv workCalendar sampleArgs
             = buildIcsEvent sampleRuntime ?input"
    by (simp add: prepareEvent_def sampleEnv_def sampleArgs_def orElse_def truthy_def
          ensureOffsetAware_def hasTimezoneOffset_def Let_def)
  from buildIcsEvent_uid [OF b] buildIcsEvent_filename [OF b] b p show ?thesis
    by (simp add: sampleRuntime_def utcHost_def)
qed

theorem write_gate_witness:
  "create_calendar_event sampleRuntime sampleEnv
      (davAnswering (Inr (probeAnswer (JArr [JObj [(''read'', JObj [])]]))))
      ''https://dav.example/cal/work/'' sampleArgs
     = (Inl ReadOnly, [Login, FetchCalendars, Propfind ''https://dav.example/cal/work/''])
   \<and> update_calendar sampleRuntime
      (davAnswering (Inr (probeAnswer (JArr [JObj [(''read'', JObj [])]]))))
      ''https://dav.example/cal/work/'' renameArgs
     = (Inl ReadOnly, [Login, FetchCalendars, Propfind ''https://dav.example/cal/work/''])
   \<and> (\<exists>ics. create_calendar_event sampleRuntime sampleEnv
      (davAnswering (Inr (probeAnswer (JObj [(''_attributes'', JObj []), (''all'', JObj [])]))))
      ''https://dav.example/cal/work/'' sampleArgs
     = (Inr (''123e4567-e89b-42d3-a456-426614174000'',
             ''https://dav.example/cal/work/123e4567-e89b-42d3-a456-426614174000.ics''),
        [Login, FetchCalendars, Propfind ''https://dav.example/cal/work/'',
         CreateCalendarObject ''https://dav.example/cal/work/'' ics
           ''123e4567-e89b-42d3-a456-426614174000.ics'']))
   \<and> update_calendar sampleRuntime
      (davAnswering (Inr (probeAnswer (JObj [(''_attributes'', JObj []), (''all'', JObj [])]))))
      ''https://dav.example/cal/work/'' renameArgs
     = (Inr ''OK'', [Login, FetchCalendars, Propfind ''https://dav.example/cal/work/'',
                     DavRequest ''https://dav.example/cal/work/'' [(''displayname'', js ''Team'')]])
   \<and> update_calendar sampleRuntime (davAnswering (Inr (probeAnswer (JArr []))))
      ''https://dav.example/cal/work/'' renameArgs
     = (Inr ''OK'', [Login, FetchCalendars, Propfind ''https://dav.example/cal/work/'',
                     DavRequest ''https://dav.example/cal/work/'' [(''displayname'', js ''Team'')]])
   \<and> update_calendar sampleRuntime (davAnswering (Inl ''propfind failed''))
      ''https://dav.example/cal/work/'' renameArgs
     = (Inr ''OK'', [Login, FetchCalendars, Propfind ''https://dav.example/cal/work/'',
                     DavRequest ''https://dav.example/cal/work/'' [(''displayname'', js ''Team'')]])"
proof -
  have a: "login (davAnswering p) = Inr ()"
    "fetchCalendars (davAnswering p) = Inr [homeCalendar, workCalendar]"
    "find_first (\<lambda>c. url c = ''https://dav.example/cal/work/'') [homeCalendar, workCalendar]
       = Some workCalendar"
    "updateAccepted sampleRuntime renameArgs" for p
    by (simp_all add: davAnswering_def mockCaldav_def workCalendar_def homeCalendar_def
          updateAccepted_def renameArgs_def)
  have e: "propfind (davAnswering p) u = p"
    "davRequest (davAnswering p) u ps = Inr ()"
    "createCalendarObject (davAnswering p) c i f
       = Inr \<lparr>ok = True, status = 201, statusText = ''Created'', body = Inr []\<rparr>" for p u ps c i f
    by (simp_all add: davAnswering_def mockCaldav_def)
  have c: "calendarProps sampleRuntime renameArgs = Inr [(''displayname'', js ''Team'')]"
    by (simp add: calendarProps_def renameArgs_def)
  from sample_prepared obtain built where
    b: "prepareEvent sampleRuntime sampleEnv workCalendar sampleArgs = Inr built"
      "ev_uid built = ''123e4567-e89b-42d3-a456-426614174000''"
      "ev_filename built = ''123e4567-e89b-42d3-a456-426614174000.ics''"
    by blast
  have r: "urlResolve sampleRuntime ''123e4567-e89b-42d3-a456-426614174000.ics''
             ''https://dav.example/cal/work/''
           = Some ''https://dav.example/cal/work/123e4567-e89b-42d3-a456-426614174000.ics''"
    by (simp add: sampleRuntime_def utcHost_def)
  note g = write_gate [OF a(1) a(2) a(3) a(4), of _ sampleEnv sampleArgs]
  show ?thesis
    using g [of "Inr (probeAnswer (JArr [JObj [(''read'', JObj [])]]))"]
      g [of "Inr (probeAnswer (JObj [(''_attributes'', JObj []), (''all'', JObj [])]))"]
      g [of "Inr (probeAnswer (JArr []))"] g [of "Inl ''propfind failed''"]
    by (simp add: e b c r probeBlocks_def privilegeSet_examples createOutcome_def)
qed

text \<open>
  The claim as stated fails: the tool \<open>delete_calendar\<close> makes no privilege probe. Against
  a calendar whose probe would yield the privilege set \<open>{read}\<close> it issues the deletion.
\<close>

theorem write_gate_counterexample:
  "privilegeSet (probeAnswer (JArr [JObj [(''read'', JObj [])]])) = {''read''}
   \<and> probeBlocks (propfind (davAnswering (Inr (probeAnswer (JArr [JObj [(''read'', JObj [])]]))))
        ''https://dav.example/cal/work/'')
   \<and> delete_calendar (davAnswering (Inr (probeAnswer (JArr [JObj [(''read'', JObj [])]]))))
        ''https://dav.example/cal/work/''
       = (Inr ''OK'', [Login, FetchCalendars, DeleteObject ''https://dav.example/cal/work/''])"
  by (simp add: privilegeSet_examples probeBlocks_def delete_calendar_def davAnswering_def
        mockCaldav_def homeCalendar_def workCalendar_def)

section \<open>Sending mail (jmap/client.ts)\<close>















subsection \<open>The selection of the identity\<close>

















subsection \<open>Examples\<close>












end
